theory Spec2Isabelle
  imports Main "HOL-Library.Word"
begin

section \<open>Strings\<close>

text \<open>
  A Go string is a sequence of bytes; it is modelled as a \<open>string\<close> (a list of
  8-bit characters). The functions of Go's \<open>strings\<close> package that
  \<open>route53.go\<close> calls are written out here as the standard library defines them:

  \<^item> \<open>strings.Trim(s, cutset)\<close> with a one-byte ASCII cutset is
    \<open>trimLeftByte(trimRightByte(s, c), c)\<close>: every leading and every trailing
    occurrence of the byte is removed;
  \<^item> \<open>strings.HasSuffix(s, suffix)\<close> is
    \<open>len(s) >= len(suffix) && s[len(s)-len(suffix):] == suffix\<close>;
  \<^item> \<open>strings.TrimSuffix(s, suffix)\<close> is \<open>s[:len(s)-len(suffix)]\<close> when
    \<open>HasSuffix(s, suffix)\<close>, and \<open>s\<close> otherwise;
  \<^item> \<open>strings.Contains(s, substr)\<close> holds when \<open>substr\<close> occurs in \<open>s\<close> at some
    index.
\<close>

fun trimLeftByte :: "string \<Rightarrow> char \<Rightarrow> string" where
  "trimLeftByte [] c = []"
| "trimLeftByte (x # xs) c = (if x = c then trimLeftByte xs c else x # xs)"

definition trimRightByte :: "string \<Rightarrow> char \<Rightarrow> string" where
  "trimRightByte s c = rev (trimLeftByte (rev s) c)"

definition Trim :: "string \<Rightarrow> char \<Rightarrow> string" where
  "Trim s c = trimLeftByte (trimRightByte s c) c"

definition HasPrefix :: "string \<Rightarrow> string \<Rightarrow> bool" where
  "HasPrefix s p = (length s \<ge> length p \<and> take (length p) s = p)"

definition HasSuffix :: "string \<Rightarrow> string \<Rightarrow> bool" where
  "HasSuffix s suffix =
     (length s \<ge> length suffix \<and> drop (length s - length suffix) s = suffix)"

definition TrimSuffix :: "string \<Rightarrow> string \<Rightarrow> string" where
  "TrimSuffix s suffix =
     (if HasSuffix s suffix then take (length s - length suffix) s else s)"

fun Contains :: "string \<Rightarrow> string \<Rightarrow> bool" where
  "Contains [] substr = (substr = [])"
| "Contains (x # xs) substr = (HasPrefix (x # xs) substr \<or> Contains xs substr)"

section \<open>The ownership validator\<close>

text \<open>
  \<^verbatim>\<open>
  func recordBelongsToZone(record string, zone string) bool {
      zone = strings.Trim(zone, ".")
      record = strings.Trim(record, ".")
      if record == zone { return false }
      zoneSuffix := "." + zone
      if !strings.HasSuffix(record, zoneSuffix) { return false }
      return !strings.Contains(strings.TrimSuffix(record, zoneSuffix), ".")
  }
  \<close>
\<close>

definition recordBelongsToZone :: "string \<Rightarrow> string \<Rightarrow> bool" where
  "recordBelongsToZone record0 zone0 =
     (let zone = Trim zone0 (CHR ''.'');
          record = Trim record0 (CHR ''.'')
      in if record = zone then False
         else let zoneSuffix = ''.'' @ zone
              in if \<not> HasSuffix record zoneSuffix then False
                 else \<not> Contains (TrimSuffix record zoneSuffix) ''.'')"

text \<open>
  The normalisation as the specification words it (section 4.2): a single trailing dot is
  stripped and nothing else is changed. It is used only to compare the code against the
  specification's wording.
\<close>

definition stripTrailingDot_spec :: "string \<Rightarrow> string" where
  "stripTrailingDot_spec s = (if s \<noteq> [] \<and> last s = CHR ''.'' then butlast s else s)"

definition belongsToZone_spec :: "string \<Rightarrow> string \<Rightarrow> bool" where
  "belongsToZone_spec r z =
     (let zone = stripTrailingDot_spec z;
          record = stripTrailingDot_spec r
      in record \<noteq> zone \<and> HasSuffix record (''.'' @ zone)
         \<and> \<not> Contains (TrimSuffix record (''.'' @ zone)) ''.'')"

section \<open>Errors and outcomes\<close>

text \<open>
  The three sentinel errors of the package, and the errors of the provider, which the code
  hands on as it receives them. A provider error is identified by its message.
\<close>

datatype error =
    errRoute53NoHostedZoneFound
  | errRoute53WaitWatchTimedOut
  | errRoute53RecordNotInZone
  | ProviderError string

text \<open>
  A call either returns a value, panics (Go dereferences a nil pointer), or never returns
  (\<open>Blocks\<close>: the \<open>select\<close> of the watcher waits for an event that never comes).
\<close>

datatype 'a outcome = Returns 'a | Panics | Blocks

section \<open>The provider interface\<close>

text \<open>
  The request and response structures of the AWS SDK that the code builds and reads. A
  pointer field is an \<open>option\<close> (\<open>None\<close> is nil, \<open>aws.String(s)\<close> is \<open>Some s\<close>); a slice is a
  list (nil is the empty list). \<open>int64\<close> is a 64-bit word.
\<close>

record ResourceRecord =
  ResourceRecord_Value :: "string option"

record ResourceRecordSet =
  ResourceRecordSet_Name :: "string option"
  ResourceRecordSet_TTL :: "64 word option"
  ResourceRecordSet_Type :: "string option"
  ResourceRecordSet_ResourceRecords :: "ResourceRecord list"

record Change =
  Change_Action :: "string option"
  Change_ResourceRecordSet :: "ResourceRecordSet option"

record ChangeBatch =
  ChangeBatch_Changes :: "Change list"
  ChangeBatch_Comment :: "string option"

record ChangeResourceRecordSetsInput =
  ChangeResourceRecordSetsInput_ChangeBatch :: "ChangeBatch option"
  ChangeResourceRecordSetsInput_HostedZoneId :: "string option"

record ChangeInfo =
  ChangeInfo_Id :: "string option"
  ChangeInfo_Status :: "string option"

record ChangeResourceRecordSetsOutput =
  ChangeResourceRecordSetsOutput_ChangeInfo :: "ChangeInfo option"

record GetChangeInput =
  GetChangeInput_Id :: "string option"

record GetChangeOutput =
  GetChangeOutput_ChangeInfo :: "ChangeInfo option"

record ListHostedZonesByNameInput =
  ListHostedZonesByNameInput_DNSName :: "string option"
  ListHostedZonesByNameInput_MaxItems :: "string option"

record HostedZone =
  HostedZone_Id :: "string option"
  HostedZone_Name :: "string option"

record ListHostedZonesByNameOutput =
  ListHostedZonesByNameOutput_HostedZones :: "HostedZone option list"

record GetHostedZoneInput =
  GetHostedZoneInput_Id :: "string option"

record DelegationSet =
  DelegationSet_NameServers :: "string option list"

record GetHostedZoneOutput =
  GetHostedZoneOutput_HostedZone :: "HostedZone option"
  GetHostedZoneOutput_DelegationSet :: "DelegationSet option"

definition ChangeActionUpsert :: string where "ChangeActionUpsert = ''UPSERT''"
definition ChangeActionDelete :: string where "ChangeActionDelete = ''DELETE''"
definition RRTypeCname :: string where "RRTypeCname = ''CNAME''"
definition ChangeStatusPending :: string where "ChangeStatusPending = ''PENDING''"
definition ChangeStatusInsync :: string where "ChangeStatusInsync = ''INSYNC''"

text \<open>
  \<open>route53iface.Route53API\<close>, restricted to the four operations the code calls. The
  provider is a state machine over a state \<open>'p\<close> of its own: an operation answers with an
  error (\<open>Inl\<close>, the error's message) or with a non-nil response (\<open>Inr\<close>), and moves the
  provider to its next state.
\<close>

record 'p Route53API =
  ListHostedZonesByName ::
    "ListHostedZonesByNameInput \<Rightarrow> 'p \<Rightarrow> (string + ListHostedZonesByNameOutput) \<times> 'p"
  GetHostedZone ::
    "GetHostedZoneInput \<Rightarrow> 'p \<Rightarrow> (string + GetHostedZoneOutput) \<times> 'p"
  ChangeResourceRecordSets ::
    "ChangeResourceRecordSetsInput \<Rightarrow> 'p \<Rightarrow> (string + ChangeResourceRecordSetsOutput) \<times> 'p"
  GetChange ::
    "GetChangeInput \<Rightarrow> 'p \<Rightarrow> (string + GetChangeOutput) \<times> 'p"

section \<open>The world the code runs in\<close>

text \<open>
  Everything outside the process that the code touches: the provider's state, the calls
  made to the provider so far (oldest first), and the timers of the Go runtime that have
  been created and not yet stopped.
\<close>

datatype call =
    CallListHostedZonesByName ListHostedZonesByNameInput
  | CallGetHostedZone GetHostedZoneInput
  | CallChangeResourceRecordSets ChangeResourceRecordSetsInput
  | CallGetChange GetChangeInput

text \<open>A runtime timer: its identity and its duration in nanoseconds.\<close>

datatype timer = Timer nat int | Ticker nat int

record 'p world =
  provider :: 'p
  calls :: "call list"
  nextTimer :: nat
  liveTimers :: "timer list"

definition callListHostedZonesByName ::
  "'p Route53API \<Rightarrow> ListHostedZonesByNameInput \<Rightarrow> 'p world
     \<Rightarrow> (string + ListHostedZonesByNameOutput) \<times> 'p world" where
  "callListHostedZonesByName a i w =
     (let (r, p) = ListHostedZonesByName a i (provider w)
      in (r, w\<lparr>provider := p, calls := calls w @ [CallListHostedZonesByName i]\<rparr>))"

definition callGetHostedZone ::
  "'p Route53API \<Rightarrow> GetHostedZoneInput \<Rightarrow> 'p world
     \<Rightarrow> (string + GetHostedZoneOutput) \<times> 'p world" where
  "callGetHostedZone a i w =
     (let (r, p) = GetHostedZone a i (provider w)
      in (r, w\<lparr>provider := p, calls := calls w @ [CallGetHostedZone i]\<rparr>))"

definition callChangeResourceRecordSets ::
  "'p Route53API \<Rightarrow> ChangeResourceRecordSetsInput \<Rightarrow> 'p world
     \<Rightarrow> (string + ChangeResourceRecordSetsOutput) \<times> 'p world" where
  "callChangeResourceRecordSets a i w =
     (let (r, p) = ChangeResourceRecordSets a i (provider w)
      in (r, w\<lparr>provider := p, calls := calls w @ [CallChangeResourceRecordSets i]\<rparr>))"

definition callGetChange ::
  "'p Route53API \<Rightarrow> GetChangeInput \<Rightarrow> 'p world \<Rightarrow> (string + GetChangeOutput) \<times> 'p world" where
  "callGetChange a i w =
     (let (r, p) = GetChange a i (provider w)
      in (r, w\<lparr>provider := p, calls := calls w @ [CallGetChange i]\<rparr>))"

definition NewTimer :: "int \<Rightarrow> 'p world \<Rightarrow> timer \<times> 'p world" where
  "NewTimer d w =
     (Timer (nextTimer w) d,
      w\<lparr>nextTimer := nextTimer w + 1, liveTimers := Timer (nextTimer w) d # liveTimers w\<rparr>)"

definition NewTicker :: "int \<Rightarrow> 'p world \<Rightarrow> timer \<times> 'p world" where
  "NewTicker d w =
     (Ticker (nextTimer w) d,
      w\<lparr>nextTimer := nextTimer w + 1, liveTimers := Ticker (nextTimer w) d # liveTimers w\<rparr>)"

definition Stop :: "timer \<Rightarrow> 'p world \<Rightarrow> 'p world" where
  "Stop t w = w\<lparr>liveTimers := removeAll t (liveTimers w)\<rparr>"

section \<open>The zone handle and its constants\<close>

definition Second :: int where "Second = 1000000000"
definition Minute :: int where "Minute = 60 * Second"

definition defaultRoute53RecordTTL :: "64 word" where
  "defaultRoute53RecordTTL = 60"
definition defaultRoute53ZoneWaitWatchInterval :: int where
  "defaultRoute53ZoneWaitWatchInterval = 10 * Second"
definition defaultRoute53ZoneWaitWatchTimeout :: int where
  "defaultRoute53ZoneWaitWatchTimeout = 2 * Minute"

record 'p route53Zone =
  api :: "'p Route53API"
  Name :: string
  ID :: string
  Nameservers :: "string list"

section \<open>The change propagation watcher\<close>

text \<open>
  Each round of the \<open>for { select { ... } }\<close> loop receives from one of two channels. Which
  one is decided outside the program, by the clock and the scheduler, so it is an input of
  the model: the schedule lists, round by round, the channel the \<open>select\<close> receives from.
  When the schedule is used up no event comes any more and the \<open>select\<close> blocks.
\<close>

datatype event = TickC | TimeoutC

text \<open>
  \<^verbatim>\<open>
  for {
      select {
      case <-tick.C:
          change, err = z.api.GetChange(&route53.GetChangeInput{Id: aws.String(changeID)})
          if err != nil { return err }
          if *change.ChangeInfo.Status == route53.ChangeStatusInsync { return nil }
          log.Printf(...)
      case <-timeout.C:
          return errRoute53WaitWatchTimedOut
      }
  }
  \<close>
\<close>

fun waitLoop ::
  "'p Route53API \<Rightarrow> string \<Rightarrow> event list \<Rightarrow> 'p world \<Rightarrow> error option outcome \<times> 'p world" where
  "waitLoop a changeID [] w = (Blocks, w)"
| "waitLoop a changeID (TimeoutC # sched) w = (Returns (Some errRoute53WaitWatchTimedOut), w)"
| "waitLoop a changeID (TickC # sched) w =
     (let (r, w1) = callGetChange a \<lparr>GetChangeInput_Id = Some changeID\<rparr> w
      in case r of
           Inl err \<Rightarrow> (Returns (Some (ProviderError err)), w1)
         | Inr change \<Rightarrow>
             (case GetChangeOutput_ChangeInfo change of
                None \<Rightarrow> (Panics, w1)
              | Some info \<Rightarrow>
                  (case ChangeInfo_Status info of
                     None \<Rightarrow> (Panics, w1)
                   | Some status \<Rightarrow>
                       if status = ChangeStatusInsync then (Returns None, w1)
                       else waitLoop a changeID sched w1)))"

text \<open>
  \<open>waitForChange\<close> creates the deadline timer and the interval ticker, defers the function
  that stops both, and runs the loop. The deferred function runs when the loop returns and
  when it panics; it does not run while the loop blocks.
\<close>

definition waitForChange ::
  "'p route53Zone \<Rightarrow> string \<Rightarrow> event list \<Rightarrow> 'p world \<Rightarrow> error option outcome \<times> 'p world" where
  "waitForChange z changeID sched w =
     (let (timeout, w1) = NewTimer defaultRoute53ZoneWaitWatchTimeout w;
          (tick, w2) = NewTicker defaultRoute53ZoneWaitWatchInterval w1;
          (r, w3) = waitLoop (api z) changeID sched w2
      in case r of
           Blocks \<Rightarrow> (Blocks, w3)
         | _ \<Rightarrow> (r, Stop tick (Stop timeout w3)))"

section \<open>The change submitter\<close>

definition changeCname ::
  "'p route53Zone \<Rightarrow> string \<Rightarrow> string \<Rightarrow> string \<Rightarrow> event list \<Rightarrow> 'p world
     \<Rightarrow> error option outcome \<times> 'p world" where
  "changeCname z action recordName value sched w =
     (if \<not> recordBelongsToZone recordName (Name z)
      then (Returns (Some errRoute53RecordNotInZone), w)
      else
        let rr =
              (if action = ChangeActionDelete
               then \<lparr>ResourceRecordSet_Name = Some recordName,
                     ResourceRecordSet_TTL = None,
                     ResourceRecordSet_Type = None,
                     ResourceRecordSet_ResourceRecords = []\<rparr>
               else \<lparr>ResourceRecordSet_Name = Some recordName,
                     ResourceRecordSet_TTL = Some defaultRoute53RecordTTL,
                     ResourceRecordSet_Type = Some RRTypeCname,
                     ResourceRecordSet_ResourceRecords =
                       [\<lparr>ResourceRecord_Value = Some value\<rparr>]\<rparr>);
            (resp, w1) =
              callChangeResourceRecordSets (api z)
                \<lparr>ChangeResourceRecordSetsInput_ChangeBatch =
                   Some \<lparr>ChangeBatch_Changes =
                           [\<lparr>Change_Action = Some action,
                             Change_ResourceRecordSet = Some rr\<rparr>],
                         ChangeBatch_Comment =
                           Some ''Managed by ingress-route53-registrator''\<rparr>,
                 ChangeResourceRecordSetsInput_HostedZoneId = Some (ID z)\<rparr> w
        in case resp of
             Inl err \<Rightarrow> (Returns (Some (ProviderError err)), w1)
           | Inr out \<Rightarrow>
               (case ChangeResourceRecordSetsOutput_ChangeInfo out of
                  None \<Rightarrow> (Panics, w1)
                | Some info \<Rightarrow>
                    (case ChangeInfo_Id info of
                       None \<Rightarrow> (Panics, w1)
                     | Some changeID \<Rightarrow> waitForChange z changeID sched w1)))"

definition UpsertCname ::
  "'p route53Zone \<Rightarrow> string \<Rightarrow> string \<Rightarrow> event list \<Rightarrow> 'p world
     \<Rightarrow> error option outcome \<times> 'p world" where
  "UpsertCname z recordName value sched w =
     changeCname z ChangeActionUpsert recordName value sched w"

definition DeleteCname ::
  "'p route53Zone \<Rightarrow> string \<Rightarrow> event list \<Rightarrow> 'p world \<Rightarrow> error option outcome \<times> 'p world" where
  "DeleteCname z recordName sched w =
     changeCname z ChangeActionDelete recordName [] sched w"

section \<open>The zone resolver\<close>

text \<open>
  The loop \<open>for i, ns := range zone.DelegationSet.NameServers { z.Nameservers[i] = *ns }\<close>
  over the slice made beforehand with the length of the source; a nil entry panics with
  the entries before it already written.
\<close>

fun copyNameServers :: "nat \<Rightarrow> string option list \<Rightarrow> string list \<Rightarrow> unit outcome \<times> string list" where
  "copyNameServers i [] dst = (Returns (), dst)"
| "copyNameServers i (ns # rest) dst =
     (case ns of
        None \<Rightarrow> (Panics, dst)
      | Some s \<Rightarrow> copyNameServers (i + 1) rest (dst[i := s]))"

definition setZone ::
  "'p route53Zone \<Rightarrow> string \<Rightarrow> 'p world \<Rightarrow> error option outcome \<times> 'p route53Zone \<times> 'p world" where
  "setZone z name w =
     (let (r, w1) =
            callListHostedZonesByName (api z)
              \<lparr>ListHostedZonesByNameInput_DNSName = Some name,
               ListHostedZonesByNameInput_MaxItems = Some ''1''\<rparr> w
      in case r of
           Inl err \<Rightarrow> (Returns (Some (ProviderError err)), z, w1)
         | Inr zones \<Rightarrow>
             (case ListHostedZonesByNameOutput_HostedZones zones of
                [] \<Rightarrow> (Returns (Some errRoute53NoHostedZoneFound), z, w1)
              | None # _ \<Rightarrow> (Panics, z, w1)
              | Some hz0 # _ \<Rightarrow>
                  (case HostedZone_Name hz0 of
                     None \<Rightarrow> (Panics, z, w1)
                   | Some n \<Rightarrow>
                       if n \<noteq> name then (Returns (Some errRoute53NoHostedZoneFound), z, w1)
                       else
                         let (r2, w2) =
                               callGetHostedZone (api z)
                                 \<lparr>GetHostedZoneInput_Id = HostedZone_Id hz0\<rparr> w1
                         in case r2 of
                              Inl err \<Rightarrow> (Returns (Some (ProviderError err)), z, w2)
                            | Inr zone \<Rightarrow>
                                (case GetHostedZoneOutput_HostedZone zone of
                                   None \<Rightarrow> (Panics, z, w2)
                                 | Some hz \<Rightarrow>
                                     (case HostedZone_Id hz of
                                        None \<Rightarrow> (Panics, z, w2)
                                      | Some zid \<Rightarrow>
                                          let z1 = z\<lparr>Name := name, ID := zid\<rparr>
                                          in case GetHostedZoneOutput_DelegationSet zone of
                                               None \<Rightarrow> (Panics, z1, w2)
                                             | Some ds \<Rightarrow>
                                                 let nss = DelegationSet_NameServers ds;
                                                     (c, dst) =
                                                       copyNameServers 0 nss
                                                         (replicate (length nss) [])
                                                 in case c of
                                                      Returns _ \<Rightarrow>
                                                        (Returns None,
                                                         z1\<lparr>Nameservers := dst\<rparr>, w2)
                                                    | _ \<Rightarrow>
                                                        (Panics,
                                                         z1\<lparr>Nameservers := dst\<rparr>, w2))))))"

text \<open>
  \<open>newRoute53Zone\<close> returns \<open>(nil, err)\<close> (\<open>Inl err\<close>) or \<open>(ret, nil)\<close> (\<open>Inr ret\<close>). The
  fresh handle holds the session and the zero values of the other fields.
\<close>

definition newRoute53Zone ::
  "string \<Rightarrow> 'p Route53API \<Rightarrow> 'p world \<Rightarrow> (error + 'p route53Zone) outcome \<times> 'p world" where
  "newRoute53Zone zoneName route53session w =
     (let ret = \<lparr>api = route53session, Name = [], ID = [], Nameservers = []\<rparr>;
          (r, ret', w') = setZone ret zoneName w
      in case r of
           Returns (Some err) \<Rightarrow> (Returns (Inl err), w')
         | Returns None \<Rightarrow> (Returns (Inr ret'), w')
         | Panics \<Rightarrow> (Panics, w')
         | Blocks \<Rightarrow> (Blocks, w'))"

section \<open>Observing the provider\<close>

text \<open>
  The status a \<open>GetChange\<close> answer carries, if it carries one, and the answers the
  provider gives to \<open>n\<close> successive \<open>GetChange\<close> calls from a state, with the state it is
  left in. Both only describe the provider; the code does not use them.
\<close>

definition statusOf :: "string + GetChangeOutput \<Rightarrow> string option" where
  "statusOf r =
     (case r of
        Inl err \<Rightarrow> None
      | Inr change \<Rightarrow>
          (case GetChangeOutput_ChangeInfo change of
             None \<Rightarrow> None
           | Some info \<Rightarrow> ChangeInfo_Status info))"

fun pollN ::
  "'p Route53API \<Rightarrow> GetChangeInput \<Rightarrow> nat \<Rightarrow> 'p \<Rightarrow> (string + GetChangeOutput) list \<times> 'p" where
  "pollN a i 0 p = ([], p)"
| "pollN a i (Suc n) p =
     (let (r, p1) = GetChange a i p;
          (rs, p2) = pollN a i n p1
      in (r # rs, p2))"


section \<open>A scripted provider for concrete runs\<close>

text \<open>
  A provider stub: three fixed answers, and a script of \<open>GetChange\<close> answers that are
  handed out one per call. \<open>world0\<close> is a world in which nothing has happened yet.
\<close>

definition stubAPI ::
  "(string + ListHostedZonesByNameOutput) \<Rightarrow> (string + GetHostedZoneOutput)
     \<Rightarrow> (string + ChangeResourceRecordSetsOutput)
     \<Rightarrow> ((string + GetChangeOutput) list) Route53API" where
  "stubAPI l g c =
     \<lparr>ListHostedZonesByName = (\<lambda>i p. (l, p)),
      GetHostedZone = (\<lambda>i p. (g, p)),
      ChangeResourceRecordSets = (\<lambda>i p. (c, p)),
      GetChange = (\<lambda>i p. case p of [] \<Rightarrow> (Inl ''no scripted answer'', []) | r # rest \<Rightarrow> (r, rest))\<rparr>"

definition world0 :: "'p \<Rightarrow> 'p world" where
  "world0 p = \<lparr>provider = p, calls = [], nextTimer = 0, liveTimers = []\<rparr>"

definition changeStatus :: "string \<Rightarrow> string + GetChangeOutput" where
  "changeStatus st =
     Inr \<lparr>GetChangeOutput_ChangeInfo =
           Some \<lparr>ChangeInfo_Id = Some ''C1'', ChangeInfo_Status = Some st\<rparr>\<rparr>"

definition stubZone :: "((string + GetChangeOutput) list) route53Zone" where
  "stubZone =
     \<lparr>api = stubAPI (Inl ''unused'') (Inl ''unused'')
              (Inr \<lparr>ChangeResourceRecordSetsOutput_ChangeInfo =
                     Some \<lparr>ChangeInfo_Id = Some ''C1'', ChangeInfo_Status = Some ''PENDING''\<rparr>\<rparr>),
      Name = ''example.com.'', ID = ''Z1'', Nameservers = [''ns1.example.net'']\<rparr>"


text \<open>
  Answers of the two operations the zone resolver calls: a listing with one candidate of a
  given name, and the detail of a zone with a given identifier and name servers.
\<close>

definition zoneListing :: "string \<Rightarrow> string + ListHostedZonesByNameOutput" where
  "zoneListing n =
     Inr \<lparr>ListHostedZonesByNameOutput_HostedZones =
           [Some \<lparr>HostedZone_Id = Some ''/hostedzone/Z1'', HostedZone_Name = Some n\<rparr>]\<rparr>"

definition zoneDetail :: "string \<Rightarrow> string option list \<Rightarrow> string + GetHostedZoneOutput" where
  "zoneDetail zid nss =
     Inr \<lparr>GetHostedZoneOutput_HostedZone =
           Some \<lparr>HostedZone_Id = Some zid, HostedZone_Name = Some ''example.com.''\<rparr>,
         GetHostedZoneOutput_DelegationSet = Some \<lparr>DelegationSet_NameServers = nss\<rparr>\<rparr>"

definition resolverAPI ::
  "(string + ListHostedZonesByNameOutput) \<Rightarrow> (string + GetHostedZoneOutput)
     \<Rightarrow> ((string + GetChangeOutput) list) Route53API" where
  "resolverAPI l g = stubAPI l g (Inl ''unused'')"


section \<open>Facts about the string functions\<close>

lemma trimLeftByte_hd: "trimLeftByte s c \<noteq> [] \<Longrightarrow> hd (trimLeftByte s c) \<noteq> c"
  by (induction s) auto

lemma trimLeftByte_split: "\<exists>n. s = replicate n c @ trimLeftByte s c"
proof (induction s)
  case Nil
  show ?case by simp
next
  case (Cons x xs)
  then obtain n where n: "xs = replicate n c @ trimLeftByte xs c" by blast
  show ?case
  proof (cases "x = c")
    case True
    then have "x # xs = replicate (Suc n) c @ trimLeftByte (x # xs) c" using n by simp
    then show ?thesis by blast
  next
    case False
    then have "x # xs = replicate 0 c @ trimLeftByte (x # xs) c" by simp
    then show ?thesis by blast
  qed
qed

lemma trimLeftByte_last: "trimLeftByte s c \<noteq> [] \<Longrightarrow> last (trimLeftByte s c) = last s"
  by (induction s) (auto split: if_splits)

lemma trimRightByte_last: "trimRightByte s c \<noteq> [] \<Longrightarrow> last (trimRightByte s c) \<noteq> c"
  unfolding trimRightByte_def using trimLeftByte_hd [of "rev s" c]
  by (simp add: last_rev)

lemma trimRightByte_split: "\<exists>m. s = trimRightByte s c @ replicate m c"
proof -
  obtain m where "rev s = replicate m c @ trimLeftByte (rev s) c"
    using trimLeftByte_split by blast
  then have "rev (rev s) = rev (replicate m c @ trimLeftByte (rev s) c)" by simp
  then have "s = trimRightByte s c @ replicate m c"
    by (simp add: trimRightByte_def)
  then show ?thesis by blast
qed

lemma Trim_hd: "Trim s c \<noteq> [] \<Longrightarrow> hd (Trim s c) \<noteq> c"
  unfolding Trim_def by (rule trimLeftByte_hd)

lemma Trim_last: "Trim s c \<noteq> [] \<Longrightarrow> last (Trim s c) \<noteq> c"
  unfolding Trim_def
  using trimLeftByte_last [of "trimRightByte s c" c] trimRightByte_last [of s c]
  by (cases "trimRightByte s c = []") auto

lemma Trim_split: "\<exists>n m. s = replicate n c @ Trim s c @ replicate m c"
proof -
  obtain m where m: "s = trimRightByte s c @ replicate m c"
    using trimRightByte_split by blast
  obtain n where n: "trimRightByte s c = replicate n c @ Trim s c"
    unfolding Trim_def using trimLeftByte_split by blast
  have "s = replicate n c @ Trim s c @ replicate m c"
    using m n by (metis append.assoc)
  then show ?thesis by blast
qed

lemma HasSuffix_iff: "HasSuffix s suf \<longleftrightarrow> (\<exists>p. s = p @ suf)"
proof
  assume "HasSuffix s suf"
  then have "s = take (length s - length suf) s @ suf"
    unfolding HasSuffix_def by (metis append_take_drop_id)
  then show "\<exists>p. s = p @ suf" by blast
next
  assume "\<exists>p. s = p @ suf"
  then show "HasSuffix s suf" unfolding HasSuffix_def by auto
qed

lemma TrimSuffix_append: "TrimSuffix (p @ suf) suf = p"
  unfolding TrimSuffix_def HasSuffix_def by simp

lemma Contains_single: "Contains s [c] \<longleftrightarrow> c \<in> set s"
  by (induction s) (auto simp: HasPrefix_def)

lemmas string_defs =
  recordBelongsToZone_def Trim_def trimRightByte_def HasSuffix_def TrimSuffix_def
  HasPrefix_def

lemma recordBelongsToZone_checks:
  "recordBelongsToZone r z \<longleftrightarrow>
     (Trim r (CHR ''.'') \<noteq> Trim z (CHR ''.'')
      \<and> HasSuffix (Trim r (CHR ''.'')) (''.'' @ Trim z (CHR ''.''))
      \<and> \<not> Contains (TrimSuffix (Trim r (CHR ''.'')) (''.'' @ Trim z (CHR ''.''))) ''.'')"
  unfolding recordBelongsToZone_def Let_def by simp

lemma recordBelongsToZone_label:
  "recordBelongsToZone r z \<longleftrightarrow>
     (\<exists>label. label \<noteq> [] \<and> CHR ''.'' \<notin> set label
        \<and> Trim r (CHR ''.'') = label @ ''.'' @ Trim z (CHR ''.''))"
proof
  assume a: "recordBelongsToZone r z"
  let ?R = "Trim r (CHR ''.'')" and ?Z = "Trim z (CHR ''.'')"
  from a have hs: "HasSuffix ?R (''.'' @ ?Z)"
    and nc: "\<not> Contains (TrimSuffix ?R (''.'' @ ?Z)) ''.''"
    unfolding recordBelongsToZone_checks by simp_all
  from hs obtain p where p: "?R = p @ ''.'' @ ?Z" unfolding HasSuffix_iff by blast
  have "TrimSuffix ?R (''.'' @ ?Z) = p" using p TrimSuffix_append by metis
  with nc have nd: "CHR ''.'' \<notin> set p" by (simp add: Contains_single)
  have "p \<noteq> []"
  proof
    assume "p = []"
    with p have "?R \<noteq> []" "hd ?R = CHR ''.''" by auto
    with Trim_hd show False by blast
  qed
  with nd p show "\<exists>label. label \<noteq> [] \<and> CHR ''.'' \<notin> set label \<and> ?R = label @ ''.'' @ ?Z"
    by blast
next
  assume "\<exists>label. label \<noteq> [] \<and> CHR ''.'' \<notin> set label
        \<and> Trim r (CHR ''.'') = label @ ''.'' @ Trim z (CHR ''.'')"
  then obtain l where l: "l \<noteq> []" "CHR ''.'' \<notin> set l"
     "Trim r (CHR ''.'') = l @ ''.'' @ Trim z (CHR ''.'')" by blast
  have 1: "Trim r (CHR ''.'') \<noteq> Trim z (CHR ''.'')" using l by auto
  have 2: "HasSuffix (Trim r (CHR ''.'')) (''.'' @ Trim z (CHR ''.''))"
    using l(3) HasSuffix_iff by blast
  have 3: "TrimSuffix (Trim r (CHR ''.'')) (''.'' @ Trim z (CHR ''.'')) = l"
    using l(3) TrimSuffix_append by metis
  show "recordBelongsToZone r z"
    unfolding recordBelongsToZone_checks using 1 2 3 l(2) by (simp add: Contains_single)
qed

section \<open>The ownership validator accepts exactly the direct children of the zone\<close>

text \<open>
  C1, as the specification words it, fails: with the normalisation of section 4.2 (a
  single trailing dot is stripped) the record \<open>.foo.example.com\<close> leaves \<open>.foo\<close> after the
  suffix is stripped, which contains a dot, and the record \<open>foo.example.com..\<close> does not
  end with a dot followed by the zone; the rule says false for both, and the code, which
  strips every leading and trailing dot, returns true for both.
\<close>

theorem recordBelongsToZone_direct_child_counterexample:
  "Contains (TrimSuffix (stripTrailingDot_spec ''.foo.example.com'')
               (''.'' @ stripTrailingDot_spec ''example.com'')) ''.''
   \<and> recordBelongsToZone ''.foo.example.com'' ''example.com''
   \<and> \<not> HasSuffix (stripTrailingDot_spec ''foo.example.com..'')
          (''.'' @ stripTrailingDot_spec ''example.com'')
   \<and> recordBelongsToZone ''foo.example.com..'' ''example.com''"
  by (simp add: string_defs stripTrailingDot_spec_def)

text \<open>
  C1, amended. For all record names \<open>r\<close> and zone names \<open>z\<close>, \<open>recordBelongsToZone r z\<close>
  holds if and only if, after every leading and every trailing dot has been stripped from
  both names, the record is exactly one label deeper than the zone: it is a non-empty
  label without a dot, then a dot, then the zone. It is false when the stripped record
  equals the apex, false when it does not end with a dot followed by the stripped zone,
  false when what is left after stripping that suffix still contains a dot, and true
  otherwise. The four examples of the specification evaluate as it says.
\<close>

theorem recordBelongsToZone_direct_child:
  "(recordBelongsToZone r z \<longleftrightarrow>
      (\<exists>label. label \<noteq> [] \<and> CHR ''.'' \<notin> set label
         \<and> Trim r (CHR ''.'') = label @ ''.'' @ Trim z (CHR ''.'')))
   \<and> (Trim r (CHR ''.'') = Trim z (CHR ''.'') \<longrightarrow> \<not> recordBelongsToZone r z)
   \<and> (\<not> HasSuffix (Trim r (CHR ''.'')) (''.'' @ Trim z (CHR ''.''))
        \<longrightarrow> \<not> recordBelongsToZone r z)
   \<and> (Contains (TrimSuffix (Trim r (CHR ''.'')) (''.'' @ Trim z (CHR ''.''))) ''.''
        \<longrightarrow> \<not> recordBelongsToZone r z)
   \<and> (Trim r (CHR ''.'') \<noteq> Trim z (CHR ''.'')
        \<and> HasSuffix (Trim r (CHR ''.'')) (''.'' @ Trim z (CHR ''.''))
        \<and> \<not> Contains (TrimSuffix (Trim r (CHR ''.'')) (''.'' @ Trim z (CHR ''.''))) ''.''
        \<longrightarrow> recordBelongsToZone r z)
   \<and> recordBelongsToZone ''foo.example.com.'' ''example.com'' = True
   \<and> recordBelongsToZone ''example.com'' ''example.com'' = False
   \<and> recordBelongsToZone ''a.b.example.com'' ''example.com'' = False
   \<and> recordBelongsToZone ''foo.other.com'' ''example.com'' = False"
proof -
  have e1: "recordBelongsToZone ''foo.example.com.'' ''example.com'' = True"
    by (simp add: string_defs)
  have e2: "recordBelongsToZone ''example.com'' ''example.com'' = False"
    by (simp add: string_defs)
  have e3: "recordBelongsToZone ''a.b.example.com'' ''example.com'' = False"
    by (simp add: string_defs)
  have e4: "recordBelongsToZone ''foo.other.com'' ''example.com'' = False"
    by (simp add: string_defs)
  show ?thesis
    using recordBelongsToZone_label [of r z] recordBelongsToZone_checks [of r z] e1 e2 e3 e4
    by blast
qed

theorem recordBelongsToZone_direct_child_witness:
  "Trim ''example.com'' (CHR ''.'') = Trim ''example.com.'' (CHR ''.'')
   \<and> \<not> recordBelongsToZone ''example.com'' ''example.com.''
   \<and> \<not> HasSuffix (Trim ''foo.other.com'' (CHR ''.'')) (''.'' @ Trim ''example.com'' (CHR ''.''))
   \<and> \<not> recordBelongsToZone ''foo.other.com'' ''example.com''
   \<and> Contains (TrimSuffix (Trim ''a.b.example.com'' (CHR ''.''))
                 (''.'' @ Trim ''example.com'' (CHR ''.''))) ''.''
   \<and> \<not> recordBelongsToZone ''a.b.example.com'' ''example.com''
   \<and> Trim ''foo.example.com.'' (CHR ''.'') \<noteq> Trim ''example.com'' (CHR ''.'')
   \<and> HasSuffix (Trim ''foo.example.com.'' (CHR ''.''))
        (''.'' @ Trim ''example.com'' (CHR ''.''))
   \<and> \<not> Contains (TrimSuffix (Trim ''foo.example.com.'' (CHR ''.''))
                   (''.'' @ Trim ''example.com'' (CHR ''.''))) ''.''
   \<and> recordBelongsToZone ''foo.example.com.'' ''example.com''"
proof -
  have a: "Trim ''example.com'' (CHR ''.'') = Trim ''example.com.'' (CHR ''.'')"
    by (simp add: string_defs)
  have b: "\<not> HasSuffix (Trim ''foo.other.com'' (CHR ''.''))
              (''.'' @ Trim ''example.com'' (CHR ''.''))"
    by (simp add: string_defs)
  have c: "Contains (TrimSuffix (Trim ''a.b.example.com'' (CHR ''.''))
                 (''.'' @ Trim ''example.com'' (CHR ''.''))) ''.''"
    by (simp add: string_defs)
  have d: "Trim ''foo.example.com.'' (CHR ''.'') \<noteq> Trim ''example.com'' (CHR ''.'')
     \<and> HasSuffix (Trim ''foo.example.com.'' (CHR ''.''))
        (''.'' @ Trim ''example.com'' (CHR ''.''))
     \<and> \<not> Contains (TrimSuffix (Trim ''foo.example.com.'' (CHR ''.''))
                   (''.'' @ Trim ''example.com'' (CHR ''.''))) ''.''"
    by (simp add: string_defs)
  show ?thesis
    using a b c d
      recordBelongsToZone_direct_child [of "''example.com''" "''example.com.''"]
      recordBelongsToZone_direct_child [of "''foo.other.com''" "''example.com''"]
      recordBelongsToZone_direct_child [of "''a.b.example.com''" "''example.com''"]
      recordBelongsToZone_direct_child [of "''foo.example.com.''" "''example.com''"]
    by blast
qed

section \<open>The validator strips every leading and trailing dot\<close>

text \<open>
  C7, as the specification words it, fails: \<open>strings.Trim(s, ".")\<close> removes every
  leading and every trailing dot, not a single trailing one. A record name with a leading
  dot, or with two trailing dots, is accepted by the code and rejected by the rule with
  the normalisation of the specification.
\<close>

theorem recordBelongsToZone_single_dot_counterexample:
  "Trim ''.foo.example.com'' (CHR ''.'') \<noteq> stripTrailingDot_spec ''.foo.example.com''
   \<and> recordBelongsToZone ''.foo.example.com'' ''example.com'' = True
   \<and> belongsToZone_spec ''.foo.example.com'' ''example.com'' = False
   \<and> Trim ''foo.example.com..'' (CHR ''.'') \<noteq> stripTrailingDot_spec ''foo.example.com..''
   \<and> recordBelongsToZone ''foo.example.com..'' ''example.com'' = True
   \<and> belongsToZone_spec ''foo.example.com..'' ''example.com'' = False"
  by (simp add: string_defs belongsToZone_spec_def stripTrailingDot_spec_def)


text \<open>
  C7, amended. \<open>recordBelongsToZone\<close> normalises each of its two arguments by removing all
  leading and all trailing dots and nothing else: the argument is the normalised name with
  dots before and after it, and the normalised name neither starts nor ends with a dot.
  The apex-equality, suffix and depth checks are applied to the normalised names.
\<close>

theorem recordBelongsToZone_trims_all_dots:
  "(\<exists>n m. r = replicate n (CHR ''.'') @ Trim r (CHR ''.'') @ replicate m (CHR ''.''))
   \<and> (\<exists>n m. z = replicate n (CHR ''.'') @ Trim z (CHR ''.'') @ replicate m (CHR ''.''))
   \<and> (Trim r (CHR ''.'') = []
       \<or> hd (Trim r (CHR ''.'')) \<noteq> CHR ''.'' \<and> last (Trim r (CHR ''.'')) \<noteq> CHR ''.'')
   \<and> (Trim z (CHR ''.'') = []
       \<or> hd (Trim z (CHR ''.'')) \<noteq> CHR ''.'' \<and> last (Trim z (CHR ''.'')) \<noteq> CHR ''.'')
   \<and> (recordBelongsToZone r z \<longleftrightarrow>
        Trim r (CHR ''.'') \<noteq> Trim z (CHR ''.'')
        \<and> HasSuffix (Trim r (CHR ''.'')) (''.'' @ Trim z (CHR ''.''))
        \<and> \<not> Contains (TrimSuffix (Trim r (CHR ''.'')) (''.'' @ Trim z (CHR ''.''))) ''.'')"
  using Trim_split [of r "CHR ''.''"] Trim_split [of z "CHR ''.''"]
    Trim_hd [of r "CHR ''.''"] Trim_last [of r "CHR ''.''"]
    Trim_hd [of z "CHR ''.''"] Trim_last [of z "CHR ''.''"]
    recordBelongsToZone_checks [of r z]
  by blast

theorem recordBelongsToZone_trims_all_dots_witness:
  "Trim ''..foo.example.com..'' (CHR ''.'') = ''foo.example.com''
   \<and> Trim ''.example.com.'' (CHR ''.'') = ''example.com''
   \<and> recordBelongsToZone ''..foo.example.com..'' ''.example.com.''"
proof -
  have a: "Trim ''..foo.example.com..'' (CHR ''.'') = ''foo.example.com''"
    "Trim ''.example.com.'' (CHR ''.'') = ''example.com''"
    by (simp_all add: string_defs)
  have b: "''foo.example.com'' \<noteq> ''example.com''
        \<and> HasSuffix ''foo.example.com'' (''.'' @ ''example.com'')
        \<and> \<not> Contains (TrimSuffix ''foo.example.com'' (''.'' @ ''example.com'')) ''.''"
    by (simp add: string_defs)
  show ?thesis
    using a b recordBelongsToZone_trims_all_dots [of "''..foo.example.com..''" "''.example.com.''"]
    by simp
qed

section \<open>Facts about the watcher\<close>

lemma waitLoop_timers:
  "nextTimer (snd (waitLoop a cid sched w)) = nextTimer w
   \<and> liveTimers (snd (waitLoop a cid sched w)) = liveTimers w"
  by (induction a cid sched w rule: waitLoop.induct)
     (auto simp: callGetChange_def Let_def split: prod.splits sum.splits option.splits)

lemma waitLoop_pending:
  "pollN a \<lparr>GetChangeInput_Id = Some cid\<rparr> k (provider w) = (rs, p)
   \<Longrightarrow> map statusOf rs = replicate k (Some st) \<Longrightarrow> st \<noteq> ChangeStatusInsync
   \<Longrightarrow> waitLoop a cid (replicate k TickC @ sched) w =
       waitLoop a cid sched
         (w\<lparr>provider := p,
            calls := calls w @ replicate k (CallGetChange \<lparr>GetChangeInput_Id = Some cid\<rparr>)\<rparr>)"
proof (induction k arbitrary: w rs p)
  case 0
  then show ?case by (cases w) auto
next
  case (Suc k)
  obtain r p1 where g: "GetChange a \<lparr>GetChangeInput_Id = Some cid\<rparr> (provider w) = (r, p1)"
    by (cases "GetChange a \<lparr>GetChangeInput_Id = Some cid\<rparr> (provider w)")
  obtain rs' p2 where n: "pollN a \<lparr>GetChangeInput_Id = Some cid\<rparr> k p1 = (rs', p2)"
    by (cases "pollN a \<lparr>GetChangeInput_Id = Some cid\<rparr> k p1")
  from Suc.prems(1) g n have rs: "rs = r # rs'" and p: "p = p2" by simp_all
  from Suc.prems(2) rs have st: "statusOf r = Some st"
    and rest: "map statusOf rs' = replicate k (Some st)" by simp_all
  let ?w1 = "w\<lparr>provider := p1, calls := calls w @ [CallGetChange \<lparr>GetChangeInput_Id = Some cid\<rparr>]\<rparr>"
  have step: "waitLoop a cid (TickC # replicate k TickC @ sched) w
                = waitLoop a cid (replicate k TickC @ sched) ?w1"
    using g st Suc.prems(3)
    by (auto simp: callGetChange_def statusOf_def split: sum.splits option.splits)
  have "pollN a \<lparr>GetChangeInput_Id = Some cid\<rparr> k (provider ?w1) = (rs', p2)"
    using n by simp
  from Suc.IH [OF this rest Suc.prems(3)] step p
  show ?case by (simp add: replicate_app_Cons_same)
qed


lemma waitLoop_insync:
  "GetChange a \<lparr>GetChangeInput_Id = Some cid\<rparr> (provider w) = (r, p)
   \<Longrightarrow> statusOf r = Some ChangeStatusInsync
   \<Longrightarrow> waitLoop a cid (TickC # sched) w =
        (Returns None,
         w\<lparr>provider := p,
           calls := calls w @ [CallGetChange \<lparr>GetChangeInput_Id = Some cid\<rparr>]\<rparr>)"
  by (auto simp: callGetChange_def statusOf_def split: sum.splits option.splits)

lemma waitLoop_error:
  "GetChange a \<lparr>GetChangeInput_Id = Some cid\<rparr> (provider w) = (Inl err, p)
   \<Longrightarrow> waitLoop a cid (TickC # sched) w =
        (Returns (Some (ProviderError err)),
         w\<lparr>provider := p,
           calls := calls w @ [CallGetChange \<lparr>GetChangeInput_Id = Some cid\<rparr>]\<rparr>)"
  by (simp add: callGetChange_def)

lemma waitForChange_loop:
  "waitForChange z cid sched w =
     (let w2 = w\<lparr>nextTimer := Suc (Suc (nextTimer w)),
                 liveTimers := Ticker (Suc (nextTimer w)) defaultRoute53ZoneWaitWatchInterval
                     # Timer (nextTimer w) defaultRoute53ZoneWaitWatchTimeout # liveTimers w\<rparr>;
          (r, w3) = waitLoop (api z) cid sched w2
      in case r of Blocks \<Rightarrow> (Blocks, w3)
         | _ \<Rightarrow> (r, Stop (Ticker (Suc (nextTimer w)) defaultRoute53ZoneWaitWatchInterval)
                     (Stop (Timer (nextTimer w) defaultRoute53ZoneWaitWatchTimeout) w3)))"
  by (simp add: waitForChange_def NewTimer_def NewTicker_def Let_def
      split: prod.splits outcome.splits)

lemma waitForChange_released:
  assumes "fst (waitForChange z cid sched w) \<noteq> Blocks"
  shows "Timer (nextTimer w) defaultRoute53ZoneWaitWatchTimeout
           \<notin> set (liveTimers (snd (waitForChange z cid sched w)))
       \<and> Ticker (Suc (nextTimer w)) defaultRoute53ZoneWaitWatchInterval
           \<notin> set (liveTimers (snd (waitForChange z cid sched w)))
       \<and> set (liveTimers (snd (waitForChange z cid sched w))) \<subseteq> set (liveTimers w)"
proof -
  let ?w2 = "w\<lparr>nextTimer := Suc (Suc (nextTimer w)),
                 liveTimers := Ticker (Suc (nextTimer w)) defaultRoute53ZoneWaitWatchInterval
                     # Timer (nextTimer w) defaultRoute53ZoneWaitWatchTimeout # liveTimers w\<rparr>"
  obtain r w3 where l: "waitLoop (api z) cid sched ?w2 = (r, w3)"
    by (cases "waitLoop (api z) cid sched ?w2")
  have lt: "liveTimers w3 = liveTimers ?w2"
    using waitLoop_timers [of "api z" cid sched ?w2] l by simp
  from assms l have nb: "r \<noteq> Blocks"
    by (auto simp: waitForChange_loop Let_def split: outcome.splits)
  then have "snd (waitForChange z cid sched w) =
     Stop (Ticker (Suc (nextTimer w)) defaultRoute53ZoneWaitWatchInterval)
                     (Stop (Timer (nextTimer w) defaultRoute53ZoneWaitWatchTimeout) w3)"
    using l by (auto simp: waitForChange_loop Let_def split: outcome.splits)
  then show ?thesis using lt by (auto simp: Stop_def)
qed

lemmas run_defs =
  waitForChange_def NewTimer_def NewTicker_def Stop_def callGetChange_def
  callChangeResourceRecordSets_def callListHostedZonesByName_def callGetHostedZone_def
  stubAPI_def world0_def changeStatus_def stubZone_def statusOf_def
  ChangeStatusInsync_def ChangeStatusPending_def ChangeActionUpsert_def
  ChangeActionDelete_def RRTypeCname_def changeCname_def UpsertCname_def DeleteCname_def
  defaultRoute53RecordTTL_def Let_def

lemma waitForChange_fst:
  "fst (waitForChange z cid sched w) =
     fst (waitLoop (api z) cid sched
       (w\<lparr>nextTimer := Suc (Suc (nextTimer w)),
          liveTimers := Ticker (Suc (nextTimer w)) defaultRoute53ZoneWaitWatchInterval
                     # Timer (nextTimer w) defaultRoute53ZoneWaitWatchTimeout # liveTimers w\<rparr>))"
  by (simp add: waitForChange_loop Let_def split: prod.splits outcome.splits)

lemma waitForChange_calls:
  "calls (snd (waitForChange z cid sched w)) =
     calls (snd (waitLoop (api z) cid sched
       (w\<lparr>nextTimer := Suc (Suc (nextTimer w)),
          liveTimers := Ticker (Suc (nextTimer w)) defaultRoute53ZoneWaitWatchInterval
                     # Timer (nextTimer w) defaultRoute53ZoneWaitWatchTimeout # liveTimers w\<rparr>)))"
  by (simp add: waitForChange_loop Let_def Stop_def split: prod.splits outcome.splits)


lemma waitForChange_blocked_timers_live:
  "fst (waitForChange z cid sched w) = Blocks \<Longrightarrow>
     liveTimers (snd (waitForChange z cid sched w)) =
       Ticker (Suc (nextTimer w)) defaultRoute53ZoneWaitWatchInterval
         # Timer (nextTimer w) defaultRoute53ZoneWaitWatchTimeout # liveTimers w"
proof -
  let ?w2 = "w\<lparr>nextTimer := Suc (Suc (nextTimer w)),
                 liveTimers := Ticker (Suc (nextTimer w)) defaultRoute53ZoneWaitWatchInterval
                     # Timer (nextTimer w) defaultRoute53ZoneWaitWatchTimeout # liveTimers w\<rparr>"
  assume b: "fst (waitForChange z cid sched w) = Blocks"
  obtain r w3 where l: "waitLoop (api z) cid sched ?w2 = (r, w3)"
    by (cases "waitLoop (api z) cid sched ?w2")
  have lt: "liveTimers w3 = liveTimers ?w2"
    using waitLoop_timers [of "api z" cid sched ?w2] l by simp
  from b l have "r = Blocks" by (simp add: waitForChange_fst)
  then have "snd (waitForChange z cid sched w) = w3"
    using l by (simp add: waitForChange_loop Let_def)
  then show ?thesis using lt by simp
qed


section \<open>The watcher succeeds on INSYNC and times out on the deadline\<close>

text \<open>
  C3. Whatever the provider and whatever follows in the schedule: if the first \<open>k\<close> polls
  answer PENDING, the deadline has not fired before poll \<open>k + 1\<close>, and that poll answers
  INSYNC, then \<open>waitForChange\<close> returns nil at that poll, after exactly \<open>k + 1\<close> calls of
  \<open>GetChange\<close>. If the first \<open>k\<close> polls answer PENDING and the deadline fires next, it
  returns the error \<open>errRoute53WaitWatchTimedOut\<close>, after exactly \<open>k\<close> calls.
\<close>

theorem waitForChange_insync_or_timeout:
  "(pollN (api z) \<lparr>GetChangeInput_Id = Some cid\<rparr> k (provider w) = (rs, p)
      \<and> map statusOf rs = replicate k (Some ChangeStatusPending)
      \<and> statusOf (fst (GetChange (api z) \<lparr>GetChangeInput_Id = Some cid\<rparr> p))
            = Some ChangeStatusInsync
    \<longrightarrow> fst (waitForChange z cid (replicate k TickC @ TickC # sched) w) = Returns None
        \<and> calls (snd (waitForChange z cid (replicate k TickC @ TickC # sched) w))
            = calls w @ replicate (Suc k) (CallGetChange \<lparr>GetChangeInput_Id = Some cid\<rparr>))
   \<and> (pollN (api z) \<lparr>GetChangeInput_Id = Some cid\<rparr> k (provider w) = (rs, p)
      \<and> map statusOf rs = replicate k (Some ChangeStatusPending)
    \<longrightarrow> fst (waitForChange z cid (replicate k TickC @ TimeoutC # sched) w)
            = Returns (Some errRoute53WaitWatchTimedOut)
        \<and> calls (snd (waitForChange z cid (replicate k TickC @ TimeoutC # sched) w))
            = calls w @ replicate k (CallGetChange \<lparr>GetChangeInput_Id = Some cid\<rparr>))"
proof -
  let ?i = "\<lparr>GetChangeInput_Id = Some cid\<rparr>"
  let ?w2 = "w\<lparr>nextTimer := Suc (Suc (nextTimer w)),
          liveTimers := Ticker (Suc (nextTimer w)) defaultRoute53ZoneWaitWatchInterval
                     # Timer (nextTimer w) defaultRoute53ZoneWaitWatchTimeout # liveTimers w\<rparr>"
  have ne: "ChangeStatusPending \<noteq> ChangeStatusInsync"
    by (simp add: ChangeStatusPending_def ChangeStatusInsync_def)
  {
    fix ev
    assume a: "pollN (api z) ?i k (provider w) = (rs, p)"
       and b: "map statusOf rs = replicate k (Some ChangeStatusPending)"
    have "pollN (api z) ?i k (provider ?w2) = (rs, p)" using a by simp
    from waitLoop_pending [OF this b ne, of "ev # sched"]
    have "waitLoop (api z) cid (replicate k TickC @ ev # sched) ?w2 =
          waitLoop (api z) cid (ev # sched)
            (?w2\<lparr>provider := p, calls := calls w @ replicate k (CallGetChange ?i)\<rparr>)"
      by simp
  } note skip = this
  have A: "fst (waitForChange z cid (replicate k TickC @ TickC # sched) w) = Returns None
        \<and> calls (snd (waitForChange z cid (replicate k TickC @ TickC # sched) w))
            = calls w @ replicate (Suc k) (CallGetChange ?i)"
    if a: "pollN (api z) ?i k (provider w) = (rs, p)"
    and b: "map statusOf rs = replicate k (Some ChangeStatusPending)"
    and c: "statusOf (fst (GetChange (api z) ?i p)) = Some ChangeStatusInsync"
  proof -
    obtain r p' where g: "GetChange (api z) ?i p = (r, p')"
      by (cases "GetChange (api z) ?i p")
    let ?w3 = "?w2\<lparr>provider := p, calls := calls w @ replicate k (CallGetChange ?i)\<rparr>"
    have "GetChange (api z) ?i (provider ?w3) = (r, p')" using g by simp
    moreover have "statusOf r = Some ChangeStatusInsync" using c g by simp
    ultimately have "waitLoop (api z) cid (TickC # sched) ?w3 =
        (Returns None, ?w3\<lparr>provider := p', calls := calls ?w3 @ [CallGetChange ?i]\<rparr>)"
      by (rule waitLoop_insync)
    with skip [OF a b, of TickC] show ?thesis
      by (simp add: waitForChange_fst waitForChange_calls replicate_append_same)
  qed
  have B: "fst (waitForChange z cid (replicate k TickC @ TimeoutC # sched) w)
            = Returns (Some errRoute53WaitWatchTimedOut)
        \<and> calls (snd (waitForChange z cid (replicate k TickC @ TimeoutC # sched) w))
            = calls w @ replicate k (CallGetChange ?i)"
    if a: "pollN (api z) ?i k (provider w) = (rs, p)"
    and b: "map statusOf rs = replicate k (Some ChangeStatusPending)"
    using skip [OF a b, of TimeoutC]
    by (simp add: waitForChange_fst waitForChange_calls)
  from A B show ?thesis by blast
qed

theorem waitForChange_insync_or_timeout_witness:
  "pollN (api stubZone) \<lparr>GetChangeInput_Id = Some ''C1''\<rparr> 2
       (provider (world0 [changeStatus ''PENDING'', changeStatus ''PENDING'', changeStatus ''INSYNC'']))
     = ([changeStatus ''PENDING'', changeStatus ''PENDING''], [changeStatus ''INSYNC''])
   \<and> map statusOf [changeStatus ''PENDING'', changeStatus ''PENDING'']
       = replicate 2 (Some ChangeStatusPending)
   \<and> statusOf (fst (GetChange (api stubZone) \<lparr>GetChangeInput_Id = Some ''C1''\<rparr>
         [changeStatus ''INSYNC''])) = Some ChangeStatusInsync
   \<and> fst (waitForChange stubZone ''C1'' (replicate 2 TickC @ TickC # [TickC, TimeoutC])
         (world0 [changeStatus ''PENDING'', changeStatus ''PENDING'', changeStatus ''INSYNC'']))
       = Returns None
   \<and> fst (waitForChange stubZone ''C1'' (replicate 2 TickC @ TimeoutC # [TickC])
         (world0 [changeStatus ''PENDING'', changeStatus ''PENDING'', changeStatus ''INSYNC'']))
       = Returns (Some errRoute53WaitWatchTimedOut)"
proof -
  let ?w = "world0 [changeStatus ''PENDING'', changeStatus ''PENDING'', changeStatus ''INSYNC'']"
  have a: "pollN (api stubZone) \<lparr>GetChangeInput_Id = Some ''C1''\<rparr> 2 (provider ?w)
     = ([changeStatus ''PENDING'', changeStatus ''PENDING''], [changeStatus ''INSYNC''])"
    by (simp add: numeral_2_eq_2 run_defs)
  have b: "map statusOf [changeStatus ''PENDING'', changeStatus ''PENDING'']
       = replicate 2 (Some ChangeStatusPending)"
    by (simp add: numeral_2_eq_2 run_defs)
  have c: "statusOf (fst (GetChange (api stubZone) \<lparr>GetChangeInput_Id = Some ''C1''\<rparr>
         [changeStatus ''INSYNC''])) = Some ChangeStatusInsync"
    by (simp add: run_defs)
  show ?thesis
    using a b c
      waitForChange_insync_or_timeout [of stubZone "''C1''" 2 ?w
        "[changeStatus ''PENDING'', changeStatus ''PENDING'']" "[changeStatus ''INSYNC'']"
        "[TickC, TimeoutC]"]
      waitForChange_insync_or_timeout [of stubZone "''C1''" 2 ?w
        "[changeStatus ''PENDING'', changeStatus ''PENDING'']" "[changeStatus ''INSYNC'']"
        "[TickC]"]
    by blast
qed

section \<open>A provider error while polling is returned as it is\<close>

text \<open>
  C5. In every round of the loop in which \<open>GetChange\<close> answers with an error, the loop
  returns that error unchanged and makes no further call. Hence a \<open>waitForChange\<close> whose
  first \<open>k\<close> polls answer PENDING and whose next poll fails returns the provider's error
  after exactly \<open>k + 1\<close> calls of \<open>GetChange\<close>, whatever the schedule holds afterwards.
\<close>

theorem waitForChange_poll_error:
  "(fst (GetChange a \<lparr>GetChangeInput_Id = Some cid\<rparr> (provider w)) = Inl err
    \<longrightarrow> waitLoop a cid (TickC # sched) w =
          (Returns (Some (ProviderError err)),
           w\<lparr>provider := snd (GetChange a \<lparr>GetChangeInput_Id = Some cid\<rparr> (provider w)),
             calls := calls w @ [CallGetChange \<lparr>GetChangeInput_Id = Some cid\<rparr>]\<rparr>))
   \<and> (pollN (api z) \<lparr>GetChangeInput_Id = Some cid\<rparr> k (provider w) = (rs, p)
      \<and> map statusOf rs = replicate k (Some ChangeStatusPending)
      \<and> fst (GetChange (api z) \<lparr>GetChangeInput_Id = Some cid\<rparr> p) = Inl err
    \<longrightarrow> fst (waitForChange z cid (replicate k TickC @ TickC # sched) w)
            = Returns (Some (ProviderError err))
        \<and> calls (snd (waitForChange z cid (replicate k TickC @ TickC # sched) w))
            = calls w @ replicate (Suc k) (CallGetChange \<lparr>GetChangeInput_Id = Some cid\<rparr>))"
proof -
  let ?i = "\<lparr>GetChangeInput_Id = Some cid\<rparr>"
  let ?w2 = "w\<lparr>nextTimer := Suc (Suc (nextTimer w)),
          liveTimers := Ticker (Suc (nextTimer w)) defaultRoute53ZoneWaitWatchInterval
                     # Timer (nextTimer w) defaultRoute53ZoneWaitWatchTimeout # liveTimers w\<rparr>"
  have ne: "ChangeStatusPending \<noteq> ChangeStatusInsync"
    by (simp add: ChangeStatusPending_def ChangeStatusInsync_def)
  have A: "waitLoop a cid (TickC # sched) w =
          (Returns (Some (ProviderError err)),
           w\<lparr>provider := snd (GetChange a ?i (provider w)),
             calls := calls w @ [CallGetChange ?i]\<rparr>)"
    if "fst (GetChange a ?i (provider w)) = Inl err"
    using that waitLoop_error [of a cid w err "snd (GetChange a ?i (provider w))" sched]
    by (cases "GetChange a ?i (provider w)") simp
  have B: "fst (waitForChange z cid (replicate k TickC @ TickC # sched) w)
            = Returns (Some (ProviderError err))
        \<and> calls (snd (waitForChange z cid (replicate k TickC @ TickC # sched) w))
            = calls w @ replicate (Suc k) (CallGetChange ?i)"
    if a: "pollN (api z) ?i k (provider w) = (rs, p)"
    and b: "map statusOf rs = replicate k (Some ChangeStatusPending)"
    and c: "fst (GetChange (api z) ?i p) = Inl err"
  proof -
    let ?w3 = "?w2\<lparr>provider := p, calls := calls w @ replicate k (CallGetChange ?i)\<rparr>"
    have "pollN (api z) ?i k (provider ?w2) = (rs, p)" using a by simp
    from waitLoop_pending [OF this b ne, of "TickC # sched"]
    have s: "waitLoop (api z) cid (replicate k TickC @ TickC # sched) ?w2 =
          waitLoop (api z) cid (TickC # sched) ?w3"
      by simp
    obtain p' where g: "GetChange (api z) ?i p = (Inl err, p')"
      using c by (cases "GetChange (api z) ?i p") simp
    have "GetChange (api z) ?i (provider ?w3) = (Inl err, p')" using g by simp
    then have "waitLoop (api z) cid (TickC # sched) ?w3 =
        (Returns (Some (ProviderError err)),
         ?w3\<lparr>provider := p', calls := calls ?w3 @ [CallGetChange ?i]\<rparr>)"
      by (rule waitLoop_error)
    with s show ?thesis
      by (simp add: waitForChange_fst waitForChange_calls replicate_append_same)
  qed
  from A B show ?thesis by blast
qed

theorem waitForChange_poll_error_witness:
  "fst (GetChange (api stubZone) \<lparr>GetChangeInput_Id = Some ''C1''\<rparr>
          (provider (world0 [Inl ''Throttling'', changeStatus ''INSYNC''])))
     = Inl ''Throttling''
   \<and> waitLoop (api stubZone) ''C1'' (TickC # [TickC, TimeoutC])
         (world0 [Inl ''Throttling'', changeStatus ''INSYNC'']) =
       (Returns (Some (ProviderError ''Throttling'')),
        \<lparr>provider = [changeStatus ''INSYNC''],
         calls = [CallGetChange \<lparr>GetChangeInput_Id = Some ''C1''\<rparr>],
         nextTimer = 0, liveTimers = []\<rparr>)
   \<and> pollN (api stubZone) \<lparr>GetChangeInput_Id = Some ''C1''\<rparr> 1
         (provider (world0 [changeStatus ''PENDING'', Inl ''Throttling'', changeStatus ''INSYNC'']))
       = ([changeStatus ''PENDING''], [Inl ''Throttling'', changeStatus ''INSYNC''])
   \<and> fst (waitForChange stubZone ''C1'' (replicate 1 TickC @ TickC # [TickC, TimeoutC])
         (world0 [changeStatus ''PENDING'', Inl ''Throttling'', changeStatus ''INSYNC'']))
       = Returns (Some (ProviderError ''Throttling''))
   \<and> calls (snd (waitForChange stubZone ''C1'' (replicate 1 TickC @ TickC # [TickC, TimeoutC])
         (world0 [changeStatus ''PENDING'', Inl ''Throttling'', changeStatus ''INSYNC''])))
       = [CallGetChange \<lparr>GetChangeInput_Id = Some ''C1''\<rparr>,
          CallGetChange \<lparr>GetChangeInput_Id = Some ''C1''\<rparr>]"
proof -
  let ?w = "world0 [changeStatus ''PENDING'', Inl ''Throttling'', changeStatus ''INSYNC'']"
  let ?v = "world0 [Inl ''Throttling'', changeStatus ''INSYNC'']"
  have a: "fst (GetChange (api stubZone) \<lparr>GetChangeInput_Id = Some ''C1''\<rparr> (provider ?v))
     = Inl ''Throttling''"
    by (simp add: run_defs)
  have b: "pollN (api stubZone) \<lparr>GetChangeInput_Id = Some ''C1''\<rparr> 1 (provider ?w)
       = ([changeStatus ''PENDING''], [Inl ''Throttling'', changeStatus ''INSYNC''])"
    by (simp add: run_defs)
  have c: "map statusOf [changeStatus ''PENDING''] = replicate 1 (Some ChangeStatusPending)"
    by (simp add: run_defs)
  have d: "fst (GetChange (api stubZone) \<lparr>GetChangeInput_Id = Some ''C1''\<rparr>
              [Inl ''Throttling'', changeStatus ''INSYNC'']) = Inl ''Throttling''"
    by (simp add: run_defs)
  have e: "calls ?w = []" "calls ?v = []" "provider ?v = [Inl ''Throttling'', changeStatus ''INSYNC'']"
    "snd (GetChange (api stubZone) \<lparr>GetChangeInput_Id = Some ''C1''\<rparr>
              [Inl ''Throttling'', changeStatus ''INSYNC'']) = [changeStatus ''INSYNC'']"
    "?v\<lparr>provider := [changeStatus ''INSYNC''],
             calls := [] @ [CallGetChange \<lparr>GetChangeInput_Id = Some ''C1''\<rparr>]\<rparr>
      = \<lparr>provider = [changeStatus ''INSYNC''],
         calls = [CallGetChange \<lparr>GetChangeInput_Id = Some ''C1''\<rparr>],
         nextTimer = 0, liveTimers = []\<rparr>"
    by (simp_all add: run_defs)
  show ?thesis
    using a b c d e
      waitForChange_poll_error [of "api stubZone" "''C1''" ?v "''Throttling''"
        "[TickC, TimeoutC]" stubZone 1 "[changeStatus ''PENDING'']"
        "[Inl ''Throttling'', changeStatus ''INSYNC'']"]
      waitForChange_poll_error [of "api stubZone" "''C1''" ?w "''Throttling''"
        "[TickC, TimeoutC]" stubZone 1 "[changeStatus ''PENDING'']"
        "[Inl ''Throttling'', changeStatus ''INSYNC'']"]
    by simp
qed

section \<open>Both timers are stopped on every exit\<close>

text \<open>
  C9. Whenever \<open>waitForChange\<close> comes back (with nil, with the timeout error, with a
  provider error, or with a panic), the deadline timer and the interval ticker it created
  are no longer among the live timers, and no timer is live that was not live before the
  call.
\<close>

theorem waitForChange_releases_timers:
  "fst (waitForChange z cid sched w) \<noteq> Blocks \<longrightarrow>
     Timer (nextTimer w) defaultRoute53ZoneWaitWatchTimeout
        \<notin> set (liveTimers (snd (waitForChange z cid sched w)))
     \<and> Ticker (Suc (nextTimer w)) defaultRoute53ZoneWaitWatchInterval
        \<notin> set (liveTimers (snd (waitForChange z cid sched w)))
     \<and> set (liveTimers (snd (waitForChange z cid sched w))) \<subseteq> set (liveTimers w)"
  using waitForChange_released [of z cid sched w] by blast


theorem waitForChange_releases_timers_witness:
  "waitForChange stubZone ''C1'' [TickC, TickC, TimeoutC]
       (world0 [changeStatus ''PENDING'', changeStatus ''INSYNC''])
     = (Returns None,
        \<lparr>provider = [],
         calls = [CallGetChange \<lparr>GetChangeInput_Id = Some ''C1''\<rparr>,
                  CallGetChange \<lparr>GetChangeInput_Id = Some ''C1''\<rparr>],
         nextTimer = 2, liveTimers = []\<rparr>)
   \<and> waitForChange stubZone ''C1'' [TickC, TimeoutC]
       (world0 [changeStatus ''PENDING'', changeStatus ''INSYNC''])
     = (Returns (Some errRoute53WaitWatchTimedOut),
        \<lparr>provider = [changeStatus ''INSYNC''],
         calls = [CallGetChange \<lparr>GetChangeInput_Id = Some ''C1''\<rparr>],
         nextTimer = 2, liveTimers = []\<rparr>)
   \<and> waitForChange stubZone ''C1'' [TickC, TickC, TimeoutC]
       (world0 [changeStatus ''PENDING'', Inl ''Throttling''])
     = (Returns (Some (ProviderError ''Throttling'')),
        \<lparr>provider = [],
         calls = [CallGetChange \<lparr>GetChangeInput_Id = Some ''C1''\<rparr>,
                  CallGetChange \<lparr>GetChangeInput_Id = Some ''C1''\<rparr>],
         nextTimer = 2, liveTimers = []\<rparr>)
   \<and> Timer (nextTimer (world0 [changeStatus ''PENDING'', changeStatus ''INSYNC'']))
         defaultRoute53ZoneWaitWatchTimeout
       \<notin> set (liveTimers (snd (waitForChange stubZone ''C1'' [TickC, TickC, TimeoutC]
                (world0 [changeStatus ''PENDING'', changeStatus ''INSYNC'']))))
   \<and> Ticker (Suc (nextTimer (world0 [changeStatus ''PENDING'', changeStatus ''INSYNC''])))
         defaultRoute53ZoneWaitWatchInterval
       \<notin> set (liveTimers (snd (waitForChange stubZone ''C1'' [TickC, TickC, TimeoutC]
                (world0 [changeStatus ''PENDING'', changeStatus ''INSYNC'']))))"
proof -
  have a: "waitForChange stubZone ''C1'' [TickC, TickC, TimeoutC]
       (world0 [changeStatus ''PENDING'', changeStatus ''INSYNC''])
     = (Returns None,
        \<lparr>provider = [],
         calls = [CallGetChange \<lparr>GetChangeInput_Id = Some ''C1''\<rparr>,
                  CallGetChange \<lparr>GetChangeInput_Id = Some ''C1''\<rparr>],
         nextTimer = 2, liveTimers = []\<rparr>)"
    by (simp add: run_defs)
  have b: "waitForChange stubZone ''C1'' [TickC, TimeoutC]
       (world0 [changeStatus ''PENDING'', changeStatus ''INSYNC''])
     = (Returns (Some errRoute53WaitWatchTimedOut),
        \<lparr>provider = [changeStatus ''INSYNC''],
         calls = [CallGetChange \<lparr>GetChangeInput_Id = Some ''C1''\<rparr>],
         nextTimer = 2, liveTimers = []\<rparr>)"
    by (simp add: run_defs)
  have c: "waitForChange stubZone ''C1'' [TickC, TickC, TimeoutC]
       (world0 [changeStatus ''PENDING'', Inl ''Throttling''])
     = (Returns (Some (ProviderError ''Throttling'')),
        \<lparr>provider = [],
         calls = [CallGetChange \<lparr>GetChangeInput_Id = Some ''C1''\<rparr>,
                  CallGetChange \<lparr>GetChangeInput_Id = Some ''C1''\<rparr>],
         nextTimer = 2, liveTimers = []\<rparr>)"
    by (simp add: run_defs)
  have d: "fst (waitForChange stubZone ''C1'' [TickC, TickC, TimeoutC]
       (world0 [changeStatus ''PENDING'', changeStatus ''INSYNC''])) \<noteq> Blocks"
    using a by simp
  show ?thesis
    using a b c d
      waitForChange_releases_timers [of stubZone "''C1''" "[TickC, TickC, TimeoutC]"
        "world0 [changeStatus ''PENDING'', changeStatus ''INSYNC'']"]
    by blast
qed


section \<open>A rejected record name reaches no provider call\<close>

text \<open>
  C2. For every zone handle, record name and value: if \<open>recordBelongsToZone\<close> rejects the
  record name for the zone's name, \<open>UpsertCname\<close> and \<open>DeleteCname\<close> return
  \<open>errRoute53RecordNotInZone\<close> and leave the world as it was: no call is made to the
  provider, so neither \<open>ChangeResourceRecordSets\<close> nor \<open>GetChange\<close> is invoked.
\<close>

theorem changeCname_rejects_before_any_call:
  "\<not> recordBelongsToZone recordName (Name z) \<longrightarrow>
     UpsertCname z recordName value sched w = (Returns (Some errRoute53RecordNotInZone), w)
     \<and> DeleteCname z recordName sched w = (Returns (Some errRoute53RecordNotInZone), w)
     \<and> calls (snd (UpsertCname z recordName value sched w)) = calls w
     \<and> calls (snd (DeleteCname z recordName sched w)) = calls w
     \<and> provider (snd (UpsertCname z recordName value sched w)) = provider w
     \<and> provider (snd (DeleteCname z recordName sched w)) = provider w"
  by (simp add: UpsertCname_def DeleteCname_def changeCname_def)

theorem changeCname_rejects_before_any_call_witness:
  "\<not> recordBelongsToZone ''a.b.example.com'' (Name stubZone)
   \<and> UpsertCname stubZone ''a.b.example.com'' ''target.example.net'' [TickC, TimeoutC]
        (world0 [changeStatus ''INSYNC''])
       = (Returns (Some errRoute53RecordNotInZone), world0 [changeStatus ''INSYNC''])
   \<and> DeleteCname stubZone ''a.b.example.com'' [TickC, TimeoutC]
        (world0 [changeStatus ''INSYNC''])
       = (Returns (Some errRoute53RecordNotInZone), world0 [changeStatus ''INSYNC''])
   \<and> calls (snd (UpsertCname stubZone ''a.b.example.com'' ''target.example.net''
        [TickC, TimeoutC] (world0 [changeStatus ''INSYNC'']))) = []"
proof -
  have a: "\<not> recordBelongsToZone ''a.b.example.com'' (Name stubZone)"
    by (simp add: stubZone_def string_defs)
  have b: "calls (world0 [changeStatus ''INSYNC'']) = []"
    by (simp add: world0_def)
  show ?thesis
    using a b
      changeCname_rejects_before_any_call [of "''a.b.example.com''" stubZone
        "''target.example.net''" "[TickC, TimeoutC]" "world0 [changeStatus ''INSYNC'']"]
    by simp
qed


section \<open>The mutation payload\<close>

lemma waitLoop_calls:
  "\<exists>n. calls (snd (waitLoop a cid sched w)) =
         calls w @ replicate n (CallGetChange \<lparr>GetChangeInput_Id = Some cid\<rparr>)"
proof (induction a cid sched w rule: waitLoop.induct)
  case (1 a changeID w)
  have "calls (snd (waitLoop a changeID [] w)) =
          calls w @ replicate 0 (CallGetChange \<lparr>GetChangeInput_Id = Some changeID\<rparr>)"
    by simp
  then show ?case by blast
next
  case (2 a changeID sched w)
  have "calls (snd (waitLoop a changeID (TimeoutC # sched) w)) =
          calls w @ replicate 0 (CallGetChange \<lparr>GetChangeInput_Id = Some changeID\<rparr>)"
    by simp
  then show ?case by blast
next
  case (3 a changeID sched w)
  let ?i = "\<lparr>GetChangeInput_Id = Some changeID\<rparr>"
  obtain r w1 where g: "callGetChange a ?i w = (r, w1)"
    by (cases "callGetChange a ?i w")
  then have c1: "calls w1 = calls w @ replicate 1 (CallGetChange ?i)"
    by (auto simp: callGetChange_def split: prod.splits)
  show ?case
  proof (cases "\<exists>change info status. r = Inr change
            \<and> GetChangeOutput_ChangeInfo change = Some info
            \<and> ChangeInfo_Status info = Some status \<and> status \<noteq> ChangeStatusInsync")
    case True
    then obtain change info status where h: "r = Inr change"
       "GetChangeOutput_ChangeInfo change = Some info"
       "ChangeInfo_Status info = Some status" "status \<noteq> ChangeStatusInsync" by blast
    from "3.IH" [OF g [symmetric] refl h(1) h(2) h(3)] h(4)
    obtain n where n: "calls (snd (waitLoop a changeID sched w1)) =
         calls w1 @ replicate n (CallGetChange ?i)" by blast
    have "waitLoop a changeID (TickC # sched) w = waitLoop a changeID sched w1"
      using g h by simp
    then have "calls (snd (waitLoop a changeID (TickC # sched) w)) =
         calls w @ replicate (Suc n) (CallGetChange ?i)"
      using n c1 by simp
    then show ?thesis by blast
  next
    case False
    then have "snd (waitLoop a changeID (TickC # sched) w) = w1"
      using g by (auto split: sum.splits option.splits)
    then have "calls (snd (waitLoop a changeID (TickC # sched) w)) =
         calls w @ replicate 1 (CallGetChange ?i)"
      using c1 by simp
    then show ?thesis by blast
  qed
qed

lemma waitForChange_calls_polls:
  "\<exists>n. calls (snd (waitForChange z cid sched w)) =
         calls w @ replicate n (CallGetChange \<lparr>GetChangeInput_Id = Some cid\<rparr>)"
  using waitLoop_calls [of "api z" cid sched
     "w\<lparr>nextTimer := Suc (Suc (nextTimer w)),
          liveTimers := Ticker (Suc (nextTimer w)) defaultRoute53ZoneWaitWatchInterval
                     # Timer (nextTimer w) defaultRoute53ZoneWaitWatchTimeout # liveTimers w\<rparr>"]
  by (simp add: waitForChange_calls)

lemma changeCname_calls:
  assumes "recordBelongsToZone recordName (Name z)"
  shows "\<exists>polls. calls (snd (changeCname z action recordName value sched w)) =
     calls w @
     CallChangeResourceRecordSets
       \<lparr>ChangeResourceRecordSetsInput_ChangeBatch =
          Some \<lparr>ChangeBatch_Changes =
                  [\<lparr>Change_Action = Some action,
                    Change_ResourceRecordSet =
                      Some (if action = ChangeActionDelete
                        then \<lparr>ResourceRecordSet_Name = Some recordName,
                              ResourceRecordSet_TTL = None,
                              ResourceRecordSet_Type = None,
                              ResourceRecordSet_ResourceRecords = []\<rparr>
                        else \<lparr>ResourceRecordSet_Name = Some recordName,
                              ResourceRecordSet_TTL = Some defaultRoute53RecordTTL,
                              ResourceRecordSet_Type = Some RRTypeCname,
                              ResourceRecordSet_ResourceRecords =
                                [\<lparr>ResourceRecord_Value = Some value\<rparr>]\<rparr>)\<rparr>],
                ChangeBatch_Comment = Some ''Managed by ingress-route53-registrator''\<rparr>,
        ChangeResourceRecordSetsInput_HostedZoneId = Some (ID z)\<rparr>
     # polls
     \<and> (\<exists>n cid. polls = replicate n (CallGetChange \<lparr>GetChangeInput_Id = Some cid\<rparr>))"
proof -
  let ?rr = "(if action = ChangeActionDelete
                        then \<lparr>ResourceRecordSet_Name = Some recordName,
                              ResourceRecordSet_TTL = None,
                              ResourceRecordSet_Type = None,
                              ResourceRecordSet_ResourceRecords = []\<rparr>
                        else \<lparr>ResourceRecordSet_Name = Some recordName,
                              ResourceRecordSet_TTL = Some defaultRoute53RecordTTL,
                              ResourceRecordSet_Type = Some RRTypeCname,
                              ResourceRecordSet_ResourceRecords =
                                [\<lparr>ResourceRecord_Value = Some value\<rparr>]\<rparr>)"
  let ?in = "\<lparr>ChangeResourceRecordSetsInput_ChangeBatch =
          Some \<lparr>ChangeBatch_Changes =
                  [\<lparr>Change_Action = Some action,
                    Change_ResourceRecordSet = Some ?rr\<rparr>],
                ChangeBatch_Comment = Some ''Managed by ingress-route53-registrator''\<rparr>,
        ChangeResourceRecordSetsInput_HostedZoneId = Some (ID z)\<rparr>"
  obtain resp w1 where c: "callChangeResourceRecordSets (api z) ?in w = (resp, w1)"
    by (cases "callChangeResourceRecordSets (api z) ?in w")
  then have c1: "calls w1 = calls w @ [CallChangeResourceRecordSets ?in]"
    by (auto simp: callChangeResourceRecordSets_def split: prod.splits)
  have e: "changeCname z action recordName value sched w =
      (case resp of
             Inl err \<Rightarrow> (Returns (Some (ProviderError err)), w1)
           | Inr out \<Rightarrow>
               (case ChangeResourceRecordSetsOutput_ChangeInfo out of
                  None \<Rightarrow> (Panics, w1)
                | Some info \<Rightarrow>
                    (case ChangeInfo_Id info of
                       None \<Rightarrow> (Panics, w1)
                     | Some changeID \<Rightarrow> waitForChange z changeID sched w1)))"
    using assms c by (simp add: changeCname_def Let_def)
  show ?thesis
  proof (cases "\<exists>out info changeID. resp = Inr out
          \<and> ChangeResourceRecordSetsOutput_ChangeInfo out = Some info
          \<and> ChangeInfo_Id info = Some changeID")
    case True
    then obtain out info changeID where h: "resp = Inr out"
          "ChangeResourceRecordSetsOutput_ChangeInfo out = Some info"
          "ChangeInfo_Id info = Some changeID" by blast
    obtain n where "calls (snd (waitForChange z changeID sched w1)) =
         calls w1 @ replicate n (CallGetChange \<lparr>GetChangeInput_Id = Some changeID\<rparr>)"
      using waitForChange_calls_polls by blast
    then have "calls (snd (changeCname z action recordName value sched w)) =
       calls w @ CallChangeResourceRecordSets ?in
         # replicate n (CallGetChange \<lparr>GetChangeInput_Id = Some changeID\<rparr>)"
      using e h c1 by simp
    then show ?thesis by blast
  next
    case False
    then have "snd (changeCname z action recordName value sched w) = w1"
      using e by (auto split: sum.splits option.splits)
    then have "calls (snd (changeCname z action recordName value sched w)) =
       calls w @ CallChangeResourceRecordSets ?in
         # replicate 0 (CallGetChange \<lparr>GetChangeInput_Id = Some []\<rparr>)"
      using c1 by simp
    then show ?thesis by blast
  qed
qed

text \<open>
  C6. For every submission that passes the ownership validation, the first call made is
  \<open>ChangeResourceRecordSets\<close> and every later call is a \<open>GetChange\<close> poll. For an upsert
  the resource record set carries the record name, the TTL 60, the type CNAME and exactly
  one resource record with the given value; for a delete it carries the record name only
  (no TTL, no type, no resource records). In both cases the change batch holds that single
  change and the comment \<open>Managed by ingress-route53-registrator\<close>, and the request is
  scoped to the identifier of the zone.
\<close>

theorem changeCname_payload:
  "recordBelongsToZone recordName (Name z) \<longrightarrow>
     (\<exists>polls. calls (snd (UpsertCname z recordName value sched w)) =
        calls w @
        CallChangeResourceRecordSets
          \<lparr>ChangeResourceRecordSetsInput_ChangeBatch =
             Some \<lparr>ChangeBatch_Changes =
                     [\<lparr>Change_Action = Some ''UPSERT'',
                       Change_ResourceRecordSet =
                         Some \<lparr>ResourceRecordSet_Name = Some recordName,
                               ResourceRecordSet_TTL = Some 60,
                               ResourceRecordSet_Type = Some ''CNAME'',
                               ResourceRecordSet_ResourceRecords =
                                 [\<lparr>ResourceRecord_Value = Some value\<rparr>]\<rparr>\<rparr>],
                   ChangeBatch_Comment = Some ''Managed by ingress-route53-registrator''\<rparr>,
           ChangeResourceRecordSetsInput_HostedZoneId = Some (ID z)\<rparr>
        # polls
        \<and> (\<exists>n cid. polls = replicate n (CallGetChange \<lparr>GetChangeInput_Id = Some cid\<rparr>)))
     \<and> (\<exists>polls. calls (snd (DeleteCname z recordName sched w)) =
        calls w @
        CallChangeResourceRecordSets
          \<lparr>ChangeResourceRecordSetsInput_ChangeBatch =
             Some \<lparr>ChangeBatch_Changes =
                     [\<lparr>Change_Action = Some ''DELETE'',
                       Change_ResourceRecordSet =
                         Some \<lparr>ResourceRecordSet_Name = Some recordName,
                               ResourceRecordSet_TTL = None,
                               ResourceRecordSet_Type = None,
                               ResourceRecordSet_ResourceRecords = []\<rparr>\<rparr>],
                   ChangeBatch_Comment = Some ''Managed by ingress-route53-registrator''\<rparr>,
           ChangeResourceRecordSetsInput_HostedZoneId = Some (ID z)\<rparr>
        # polls
        \<and> (\<exists>n cid. polls = replicate n (CallGetChange \<lparr>GetChangeInput_Id = Some cid\<rparr>)))"
proof
  assume a: "recordBelongsToZone recordName (Name z)"
  have ud: "ChangeActionUpsert \<noteq> ChangeActionDelete"
    by (simp add: ChangeActionUpsert_def ChangeActionDelete_def)
  have u: "ChangeActionUpsert = ''UPSERT''" "ChangeActionDelete = ''DELETE''"
    "RRTypeCname = ''CNAME''" "defaultRoute53RecordTTL = 60"
    by (simp_all add: ChangeActionUpsert_def ChangeActionDelete_def RRTypeCname_def
        defaultRoute53RecordTTL_def)
  from changeCname_calls [OF a, of ChangeActionUpsert "value" sched w] ud
  have U: "\<exists>polls. calls (snd (UpsertCname z recordName value sched w)) =
        calls w @
        CallChangeResourceRecordSets
          \<lparr>ChangeResourceRecordSetsInput_ChangeBatch =
             Some \<lparr>ChangeBatch_Changes =
                     [\<lparr>Change_Action = Some ''UPSERT'',
                       Change_ResourceRecordSet =
                         Some \<lparr>ResourceRecordSet_Name = Some recordName,
                               ResourceRecordSet_TTL = Some 60,
                               ResourceRecordSet_Type = Some ''CNAME'',
                               ResourceRecordSet_ResourceRecords =
                                 [\<lparr>ResourceRecord_Value = Some value\<rparr>]\<rparr>\<rparr>],
                   ChangeBatch_Comment = Some ''Managed by ingress-route53-registrator''\<rparr>,
           ChangeResourceRecordSetsInput_HostedZoneId = Some (ID z)\<rparr>
        # polls
        \<and> (\<exists>n cid. polls = replicate n (CallGetChange \<lparr>GetChangeInput_Id = Some cid\<rparr>))"
    unfolding UpsertCname_def by (simp only: u [symmetric] if_False)
  from changeCname_calls [OF a, of ChangeActionDelete "[]" sched w]
  have D: "\<exists>polls. calls (snd (DeleteCname z recordName sched w)) =
        calls w @
        CallChangeResourceRecordSets
          \<lparr>ChangeResourceRecordSetsInput_ChangeBatch =
             Some \<lparr>ChangeBatch_Changes =
                     [\<lparr>Change_Action = Some ''DELETE'',
                       Change_ResourceRecordSet =
                         Some \<lparr>ResourceRecordSet_Name = Some recordName,
                               ResourceRecordSet_TTL = None,
                               ResourceRecordSet_Type = None,
                               ResourceRecordSet_ResourceRecords = []\<rparr>\<rparr>],
                   ChangeBatch_Comment = Some ''Managed by ingress-route53-registrator''\<rparr>,
           ChangeResourceRecordSetsInput_HostedZoneId = Some (ID z)\<rparr>
        # polls
        \<and> (\<exists>n cid. polls = replicate n (CallGetChange \<lparr>GetChangeInput_Id = Some cid\<rparr>))"
    unfolding DeleteCname_def by (simp only: u [symmetric] simp_thms if_True)
  from U D show "(\<exists>polls. calls (snd (UpsertCname z recordName value sched w)) =
        calls w @
        CallChangeResourceRecordSets
          \<lparr>ChangeResourceRecordSetsInput_ChangeBatch =
             Some \<lparr>ChangeBatch_Changes =
                     [\<lparr>Change_Action = Some ''UPSERT'',
                       Change_ResourceRecordSet =
                         Some \<lparr>ResourceRecordSet_Name = Some recordName,
                               ResourceRecordSet_TTL = Some 60,
                               ResourceRecordSet_Type = Some ''CNAME'',
                               ResourceRecordSet_ResourceRecords =
                                 [\<lparr>ResourceRecord_Value = Some value\<rparr>]\<rparr>\<rparr>],
                   ChangeBatch_Comment = Some ''Managed by ingress-route53-registrator''\<rparr>,
           ChangeResourceRecordSetsInput_HostedZoneId = Some (ID z)\<rparr>
        # polls
        \<and> (\<exists>n cid. polls = replicate n (CallGetChange \<lparr>GetChangeInput_Id = Some cid\<rparr>)))
     \<and> (\<exists>polls. calls (snd (DeleteCname z recordName sched w)) =
        calls w @
        CallChangeResourceRecordSets
          \<lparr>ChangeResourceRecordSetsInput_ChangeBatch =
             Some \<lparr>ChangeBatch_Changes =
                     [\<lparr>Change_Action = Some ''DELETE'',
                       Change_ResourceRecordSet =
                         Some \<lparr>ResourceRecordSet_Name = Some recordName,
                               ResourceRecordSet_TTL = None,
                               ResourceRecordSet_Type = None,
                               ResourceRecordSet_ResourceRecords = []\<rparr>\<rparr>],
                   ChangeBatch_Comment = Some ''Managed by ingress-route53-registrator''\<rparr>,
           ChangeResourceRecordSetsInput_HostedZoneId = Some (ID z)\<rparr>
        # polls
        \<and> (\<exists>n cid. polls = replicate n (CallGetChange \<lparr>GetChangeInput_Id = Some cid\<rparr>)))"
    by (rule conjI)
qed

theorem changeCname_payload_witness:
  "recordBelongsToZone ''foo.example.com'' (Name stubZone)
   \<and> calls (snd (UpsertCname stubZone ''foo.example.com'' ''target.example.net''
        [TickC, TimeoutC] (world0 [changeStatus ''INSYNC''])))
     = [CallChangeResourceRecordSets
          \<lparr>ChangeResourceRecordSetsInput_ChangeBatch =
             Some \<lparr>ChangeBatch_Changes =
                     [\<lparr>Change_Action = Some ''UPSERT'',
                       Change_ResourceRecordSet =
                         Some \<lparr>ResourceRecordSet_Name = Some ''foo.example.com'',
                               ResourceRecordSet_TTL = Some 60,
                               ResourceRecordSet_Type = Some ''CNAME'',
                               ResourceRecordSet_ResourceRecords =
                                 [\<lparr>ResourceRecord_Value = Some ''target.example.net''\<rparr>]\<rparr>\<rparr>],
                   ChangeBatch_Comment = Some ''Managed by ingress-route53-registrator''\<rparr>,
           ChangeResourceRecordSetsInput_HostedZoneId = Some ''Z1''\<rparr>,
        CallGetChange \<lparr>GetChangeInput_Id = Some ''C1''\<rparr>]
   \<and> calls (snd (DeleteCname stubZone ''foo.example.com''
        [TickC, TimeoutC] (world0 [changeStatus ''INSYNC''])))
     = [CallChangeResourceRecordSets
          \<lparr>ChangeResourceRecordSetsInput_ChangeBatch =
             Some \<lparr>ChangeBatch_Changes =
                     [\<lparr>Change_Action = Some ''DELETE'',
                       Change_ResourceRecordSet =
                         Some \<lparr>ResourceRecordSet_Name = Some ''foo.example.com'',
                               ResourceRecordSet_TTL = None,
                               ResourceRecordSet_Type = None,
                               ResourceRecordSet_ResourceRecords = []\<rparr>\<rparr>],
                   ChangeBatch_Comment = Some ''Managed by ingress-route53-registrator''\<rparr>,
           ChangeResourceRecordSetsInput_HostedZoneId = Some ''Z1''\<rparr>,
        CallGetChange \<lparr>GetChangeInput_Id = Some ''C1''\<rparr>]"
proof -
  have a: "recordBelongsToZone ''foo.example.com'' (Name stubZone)"
    by (simp add: stubZone_def string_defs)
  have b: "calls (snd (UpsertCname stubZone ''foo.example.com'' ''target.example.net''
        [TickC, TimeoutC] (world0 [changeStatus ''INSYNC''])))
     = [CallChangeResourceRecordSets
          \<lparr>ChangeResourceRecordSetsInput_ChangeBatch =
             Some \<lparr>ChangeBatch_Changes =
                     [\<lparr>Change_Action = Some ''UPSERT'',
                       Change_ResourceRecordSet =
                         Some \<lparr>ResourceRecordSet_Name = Some ''foo.example.com'',
                               ResourceRecordSet_TTL = Some 60,
                               ResourceRecordSet_Type = Some ''CNAME'',
                               ResourceRecordSet_ResourceRecords =
                                 [\<lparr>ResourceRecord_Value = Some ''target.example.net''\<rparr>]\<rparr>\<rparr>],
                   ChangeBatch_Comment = Some ''Managed by ingress-route53-registrator''\<rparr>,
           ChangeResourceRecordSetsInput_HostedZoneId = Some ''Z1''\<rparr>,
        CallGetChange \<lparr>GetChangeInput_Id = Some ''C1''\<rparr>]"
    using a by (simp add: run_defs)
  have c: "calls (snd (DeleteCname stubZone ''foo.example.com''
        [TickC, TimeoutC] (world0 [changeStatus ''INSYNC''])))
     = [CallChangeResourceRecordSets
          \<lparr>ChangeResourceRecordSetsInput_ChangeBatch =
             Some \<lparr>ChangeBatch_Changes =
                     [\<lparr>Change_Action = Some ''DELETE'',
                       Change_ResourceRecordSet =
                         Some \<lparr>ResourceRecordSet_Name = Some ''foo.example.com'',
                               ResourceRecordSet_TTL = None,
                               ResourceRecordSet_Type = None,
                               ResourceRecordSet_ResourceRecords = []\<rparr>\<rparr>],
                   ChangeBatch_Comment = Some ''Managed by ingress-route53-registrator''\<rparr>,
           ChangeResourceRecordSetsInput_HostedZoneId = Some ''Z1''\<rparr>,
        CallGetChange \<lparr>GetChangeInput_Id = Some ''C1''\<rparr>]"
    using a by (simp add: run_defs)
  show ?thesis
    using a b c
      changeCname_payload [of "''foo.example.com''" stubZone "''target.example.net''"
        "[TickC, TimeoutC]" "world0 [changeStatus ''INSYNC'']"]
    by blast
qed


section \<open>Facts about the zone resolver\<close>

lemma copyNameServers_all:
  "i + length xs \<le> length dst \<Longrightarrow>
     copyNameServers i (map Some xs) dst =
       (Returns (), take i dst @ xs @ drop (i + length xs) dst)"
proof (induction xs arbitrary: i dst)
  case Nil
  then show ?case by simp
next
  case (Cons x xs)
  then have "Suc i + length xs \<le> length (dst[i := x])" by simp
  from Cons.IH [OF this] Cons.prems show ?case
    by (simp add: take_Suc_conv_app_nth)
qed

lemma copyNameServers_returns:
  "fst (copyNameServers i nss dst) = Returns u \<Longrightarrow> \<exists>xs. nss = map Some xs"
proof (induction nss arbitrary: i dst)
  case Nil
  then show ?case by simp
next
  case (Cons ns nss)
  then obtain s where s: "ns = Some s" by (cases ns) auto
  with Cons.prems have "fst (copyNameServers (i + 1) nss (dst[i := s])) = Returns u" by simp
  from Cons.IH [OF this] obtain xs where "nss = map Some xs" by blast
  with s have "ns # nss = map Some (s # xs)" by simp
  then show ?case by (rule exI)
qed

lemma copyNameServers_fresh:
  "copyNameServers 0 nss (replicate (length nss) []) = (Returns u, dst)
     \<Longrightarrow> nss = map Some dst"
proof -
  assume a: "copyNameServers 0 nss (replicate (length nss) []) = (Returns u, dst)"
  then have "fst (copyNameServers 0 nss (replicate (length nss) [])) = Returns u" by simp
  then obtain xs where xs: "nss = map Some xs" using copyNameServers_returns by blast
  have "copyNameServers 0 (map Some xs) (replicate (length xs) []) = (Returns (), xs)"
    using copyNameServers_all [of 0 xs "replicate (length xs) []"] by simp
  with a xs show ?thesis by simp
qed

lemma copyNameServers_not_Blocks: "fst (copyNameServers i nss dst) \<noteq> Blocks"
  by (induction nss arbitrary: i dst) (auto split: option.splits)

lemma setZone_error_unchanged:
  "fst (setZone z name w) = Returns (Some err) \<Longrightarrow> fst (snd (setZone z name w)) = z"
  unfolding setZone_def Let_def
  by (auto split: prod.splits sum.splits list.splits option.splits if_splits outcome.splits)

lemmas resolve_defs =
  newRoute53Zone_def setZone_def callListHostedZonesByName_def callGetHostedZone_def
  resolverAPI_def stubAPI_def world0_def zoneListing_def zoneDetail_def Let_def

lemma setZone_found_only_if:
  assumes "fst (setZone z name w) = Returns (Some errRoute53NoHostedZoneFound)"
  shows "\<exists>zones p.
       ListHostedZonesByName (api z)
          \<lparr>ListHostedZonesByNameInput_DNSName = Some name,
           ListHostedZonesByNameInput_MaxItems = Some ''1''\<rparr> (provider w) = (Inr zones, p)
       \<and> (ListHostedZonesByNameOutput_HostedZones zones = []
          \<or> (\<exists>hz0 rest n. ListHostedZonesByNameOutput_HostedZones zones = Some hz0 # rest
                \<and> HostedZone_Name hz0 = Some n \<and> n \<noteq> name))"
  using assms unfolding setZone_def Let_def callListHostedZonesByName_def
  by (auto split: prod.splits sum.splits list.splits option.splits if_splits outcome.splits)

lemma setZone_found_if:
  assumes "ListHostedZonesByName (api z)
          \<lparr>ListHostedZonesByNameInput_DNSName = Some name,
           ListHostedZonesByNameInput_MaxItems = Some ''1''\<rparr> (provider w) = (Inr zones, p)"
    and "ListHostedZonesByNameOutput_HostedZones zones = []
          \<or> (\<exists>hz0 rest n. ListHostedZonesByNameOutput_HostedZones zones = Some hz0 # rest
                \<and> HostedZone_Name hz0 = Some n \<and> n \<noteq> name)"
  shows "fst (setZone z name w) = Returns (Some errRoute53NoHostedZoneFound)"
  using assms unfolding setZone_def Let_def callListHostedZonesByName_def
  by auto

lemma newRoute53Zone_setZone:
  "fst (newRoute53Zone name a w) =
     (case fst (setZone \<lparr>api = a, Name = [], ID = [], Nameservers = []\<rparr> name w) of
        Returns (Some err) \<Rightarrow> Returns (Inl err)
      | Returns None \<Rightarrow>
          Returns (Inr (fst (snd (setZone \<lparr>api = a, Name = [], ID = [], Nameservers = []\<rparr> name w))))
      | Panics \<Rightarrow> Panics
      | Blocks \<Rightarrow> Blocks)"
  unfolding newRoute53Zone_def Let_def
  by (simp split: prod.splits outcome.splits option.splits)

lemma setZone_success:
  assumes "fst (setZone z name w) = Returns None"
  shows "\<exists>zones hz0 rest p1 zone p2 hz ds.
       ListHostedZonesByName (api z)
          \<lparr>ListHostedZonesByNameInput_DNSName = Some name,
           ListHostedZonesByNameInput_MaxItems = Some ''1''\<rparr> (provider w) = (Inr zones, p1)
       \<and> ListHostedZonesByNameOutput_HostedZones zones = Some hz0 # rest
       \<and> HostedZone_Name hz0 = Some name
       \<and> GetHostedZone (api z) \<lparr>GetHostedZoneInput_Id = HostedZone_Id hz0\<rparr> p1 = (Inr zone, p2)
       \<and> GetHostedZoneOutput_HostedZone zone = Some hz
       \<and> HostedZone_Id hz = Some (ID (fst (snd (setZone z name w))))
       \<and> GetHostedZoneOutput_DelegationSet zone = Some ds
       \<and> DelegationSet_NameServers ds = map Some (Nameservers (fst (snd (setZone z name w))))
       \<and> Name (fst (snd (setZone z name w))) = name
       \<and> api (fst (snd (setZone z name w))) = api z"
  using assms unfolding setZone_def Let_def callListHostedZonesByName_def callGetHostedZone_def
  by (auto split: prod.splits sum.splits list.splits option.splits if_splits outcome.splits
      dest: copyNameServers_fresh)

lemma setZone_list_error:
  "fst (ListHostedZonesByName (api z)
          \<lparr>ListHostedZonesByNameInput_DNSName = Some name,
           ListHostedZonesByNameInput_MaxItems = Some ''1''\<rparr> (provider w)) = Inl e
   \<Longrightarrow> fst (setZone z name w) = Returns (Some (ProviderError e))"
  by (cases "ListHostedZonesByName (api z)
          \<lparr>ListHostedZonesByNameInput_DNSName = Some name,
           ListHostedZonesByNameInput_MaxItems = Some ''1''\<rparr> (provider w)")
     (simp add: setZone_def Let_def callListHostedZonesByName_def)

lemma setZone_detail_error:
  "ListHostedZonesByName (api z)
          \<lparr>ListHostedZonesByNameInput_DNSName = Some name,
           ListHostedZonesByNameInput_MaxItems = Some ''1''\<rparr> (provider w) = (Inr zones, p1)
   \<Longrightarrow> ListHostedZonesByNameOutput_HostedZones zones = Some hz0 # rest
   \<Longrightarrow> HostedZone_Name hz0 = Some name
   \<Longrightarrow> fst (GetHostedZone (api z) \<lparr>GetHostedZoneInput_Id = HostedZone_Id hz0\<rparr> p1) = Inl e
   \<Longrightarrow> fst (setZone z name w) = Returns (Some (ProviderError e))"
  by (cases "GetHostedZone (api z) \<lparr>GetHostedZoneInput_Id = HostedZone_Id hz0\<rparr> p1")
     (simp add: setZone_def Let_def callListHostedZonesByName_def callGetHostedZone_def)


section \<open>When resolution fails with NoHostedZoneFound\<close>

text \<open>
  C4, as stated, fails: the code compares the candidate's name with the requested name as
  they are, without normalising either. A candidate \<open>example.com.\<close> for the request
  \<open>example.com\<close> has the same normalised name and is rejected all the same.
\<close>

theorem setZone_normalized_match_counterexample:
  "stripTrailingDot_spec ''example.com.'' = stripTrailingDot_spec ''example.com''
   \<and> fst (ListHostedZonesByName
          (resolverAPI (zoneListing ''example.com.'')
             (zoneDetail ''/hostedzone/Z1'' [Some ''ns-1.awsdns-01.org.'']))
          \<lparr>ListHostedZonesByNameInput_DNSName = Some ''example.com'',
           ListHostedZonesByNameInput_MaxItems = Some ''1''\<rparr>
          (provider (world0 [])))
       = zoneListing ''example.com.''
   \<and> fst (newRoute53Zone ''example.com''
          (resolverAPI (zoneListing ''example.com.'')
             (zoneDetail ''/hostedzone/Z1'' [Some ''ns-1.awsdns-01.org.'']))
          (world0 []))
       = Returns (Inl errRoute53NoHostedZoneFound)"
  by (simp add: resolve_defs stripTrailingDot_spec_def)


text \<open>
  C4, amended. \<open>setZone\<close>, and with it \<open>newRoute53Zone\<close>, fails with
  \<open>errRoute53NoHostedZoneFound\<close> exactly when \<open>ListHostedZonesByName\<close> answers without
  error and either returns no zone or returns a first candidate whose name differs from
  the requested name, both taken as they are. A candidate of which the request is only a
  prefix or a substring is therefore rejected, and so is one that differs by a trailing
  dot.
\<close>

theorem setZone_NoHostedZoneFound_iff:
  "(fst (setZone z name w) = Returns (Some errRoute53NoHostedZoneFound) \<longleftrightarrow>
      (\<exists>zones p.
         ListHostedZonesByName (api z)
            \<lparr>ListHostedZonesByNameInput_DNSName = Some name,
             ListHostedZonesByNameInput_MaxItems = Some ''1''\<rparr> (provider w) = (Inr zones, p)
         \<and> (ListHostedZonesByNameOutput_HostedZones zones = []
            \<or> (\<exists>hz0 rest n. ListHostedZonesByNameOutput_HostedZones zones = Some hz0 # rest
                  \<and> HostedZone_Name hz0 = Some n \<and> n \<noteq> name))))
   \<and> (fst (newRoute53Zone name a w) = Returns (Inl errRoute53NoHostedZoneFound) \<longleftrightarrow>
      (\<exists>zones p.
         ListHostedZonesByName a
            \<lparr>ListHostedZonesByNameInput_DNSName = Some name,
             ListHostedZonesByNameInput_MaxItems = Some ''1''\<rparr> (provider w) = (Inr zones, p)
         \<and> (ListHostedZonesByNameOutput_HostedZones zones = []
            \<or> (\<exists>hz0 rest n. ListHostedZonesByNameOutput_HostedZones zones = Some hz0 # rest
                  \<and> HostedZone_Name hz0 = Some n \<and> n \<noteq> name))))"
proof -
  have A: "fst (setZone z name w) = Returns (Some errRoute53NoHostedZoneFound) \<longleftrightarrow>
      (\<exists>zones p.
         ListHostedZonesByName (api z)
            \<lparr>ListHostedZonesByNameInput_DNSName = Some name,
             ListHostedZonesByNameInput_MaxItems = Some ''1''\<rparr> (provider w) = (Inr zones, p)
         \<and> (ListHostedZonesByNameOutput_HostedZones zones = []
            \<or> (\<exists>hz0 rest n. ListHostedZonesByNameOutput_HostedZones zones = Some hz0 # rest
                  \<and> HostedZone_Name hz0 = Some n \<and> n \<noteq> name)))" for z :: "'a route53Zone"
    using setZone_found_only_if [of z name w] setZone_found_if [of z name w] by blast
  have B: "fst (newRoute53Zone name a w) = Returns (Inl errRoute53NoHostedZoneFound) \<longleftrightarrow>
     fst (setZone \<lparr>api = a, Name = [], ID = [], Nameservers = []\<rparr> name w)
       = Returns (Some errRoute53NoHostedZoneFound)"
    by (simp add: newRoute53Zone_setZone split: outcome.splits option.splits)
  show ?thesis
    using A [of z] A [of "\<lparr>api = a, Name = [], ID = [], Nameservers = []\<rparr>"] B by simp
qed

theorem setZone_NoHostedZoneFound_iff_witness:
  "fst (newRoute53Zone ''example.com.''
          (resolverAPI (zoneListing ''example.com.au.'')
             (zoneDetail ''/hostedzone/Z1'' [Some ''ns-1.awsdns-01.org.'']))
          (world0 []))
       = Returns (Inl errRoute53NoHostedZoneFound)
   \<and> fst (setZone stubZone ''example.com.'' (world0 []))
       \<noteq> Returns (Some errRoute53NoHostedZoneFound)"
proof -
  let ?a = "resolverAPI (zoneListing ''example.com.au.'')
             (zoneDetail ''/hostedzone/Z1'' [Some ''ns-1.awsdns-01.org.''])"
  have a: "ListHostedZonesByName ?a
            \<lparr>ListHostedZonesByNameInput_DNSName = Some ''example.com.'',
             ListHostedZonesByNameInput_MaxItems = Some ''1''\<rparr> (provider (world0 []))
        = (Inr \<lparr>ListHostedZonesByNameOutput_HostedZones =
           [Some \<lparr>HostedZone_Id = Some ''/hostedzone/Z1'',
                  HostedZone_Name = Some ''example.com.au.''\<rparr>]\<rparr>, [])"
    by (simp add: resolve_defs)
  have b: "ListHostedZonesByName (api stubZone)
            \<lparr>ListHostedZonesByNameInput_DNSName = Some ''example.com.'',
             ListHostedZonesByNameInput_MaxItems = Some ''1''\<rparr> (provider (world0 []))
        = (Inl ''unused'', [])"
    by (simp add: run_defs)
  show ?thesis
    using a b
      setZone_NoHostedZoneFound_iff [of stubZone "''example.com.''" "world0 []" ?a]
    by simp
qed


section \<open>The fields of a resolved zone\<close>

text \<open>
  C8, as stated, fails: the code copies the identifier and the name servers the provider
  returns without looking at them. A provider that answers with an empty identifier and
  no name server yields a zone without error whose ID and Nameservers are empty.
\<close>

theorem newRoute53Zone_empty_fields_counterexample:
  "fst (newRoute53Zone ''example.com.''
          (resolverAPI (zoneListing ''example.com.'') (zoneDetail [] [])) (world0 []))
     = Returns (Inr \<lparr>api = resolverAPI (zoneListing ''example.com.'') (zoneDetail [] []),
                     Name = ''example.com.'', ID = [], Nameservers = []\<rparr>)"
  by (simp add: resolve_defs)


text \<open>
  C8, amended. Whenever \<open>newRoute53Zone\<close> returns a zone without error, the zone's Name is
  the requested name, its ID is the identifier \<open>GetHostedZone\<close> returned and its
  Nameservers are the name servers \<open>GetHostedZone\<close> returned, in order; they are non-empty
  exactly when the provider's answer is. When \<open>newRoute53Zone\<close> returns an error it
  returns no handle, and the handle it dropped still has the zero values in its fields.
\<close>

theorem newRoute53Zone_fields_from_provider:
  "(fst (newRoute53Zone zoneName a w) = Returns (Inr z) \<longrightarrow>
      (\<exists>zones hz0 rest p1 zone p2 hz ds.
         ListHostedZonesByName a
            \<lparr>ListHostedZonesByNameInput_DNSName = Some zoneName,
             ListHostedZonesByNameInput_MaxItems = Some ''1''\<rparr> (provider w) = (Inr zones, p1)
         \<and> ListHostedZonesByNameOutput_HostedZones zones = Some hz0 # rest
         \<and> HostedZone_Name hz0 = Some zoneName
         \<and> GetHostedZone a \<lparr>GetHostedZoneInput_Id = HostedZone_Id hz0\<rparr> p1 = (Inr zone, p2)
         \<and> GetHostedZoneOutput_HostedZone zone = Some hz
         \<and> HostedZone_Id hz = Some (ID z)
         \<and> GetHostedZoneOutput_DelegationSet zone = Some ds
         \<and> DelegationSet_NameServers ds = map Some (Nameservers z))
      \<and> Name z = zoneName \<and> api z = a)
   \<and> (fst (newRoute53Zone zoneName a w) = Returns (Inl err) \<longrightarrow>
        fst (snd (setZone \<lparr>api = a, Name = [], ID = [], Nameservers = []\<rparr> zoneName w))
          = \<lparr>api = a, Name = [], ID = [], Nameservers = []\<rparr>)"
proof -
  let ?f = "\<lparr>api = a, Name = [], ID = [], Nameservers = []\<rparr>"
  have A: "(\<exists>zones hz0 rest p1 zone p2 hz ds.
         ListHostedZonesByName a
            \<lparr>ListHostedZonesByNameInput_DNSName = Some zoneName,
             ListHostedZonesByNameInput_MaxItems = Some ''1''\<rparr> (provider w) = (Inr zones, p1)
         \<and> ListHostedZonesByNameOutput_HostedZones zones = Some hz0 # rest
         \<and> HostedZone_Name hz0 = Some zoneName
         \<and> GetHostedZone a \<lparr>GetHostedZoneInput_Id = HostedZone_Id hz0\<rparr> p1 = (Inr zone, p2)
         \<and> GetHostedZoneOutput_HostedZone zone = Some hz
         \<and> HostedZone_Id hz = Some (ID z)
         \<and> GetHostedZoneOutput_DelegationSet zone = Some ds
         \<and> DelegationSet_NameServers ds = map Some (Nameservers z))
      \<and> Name z = zoneName \<and> api z = a"
    if s: "fst (newRoute53Zone zoneName a w) = Returns (Inr z)"
  proof -
    from s have ok: "fst (setZone ?f zoneName w) = Returns None"
      and z: "z = fst (snd (setZone ?f zoneName w))"
      by (auto simp: newRoute53Zone_setZone split: outcome.splits option.splits)
    have "api ?f = a" by simp
    with setZone_success [OF ok] show ?thesis unfolding z [symmetric] by metis
  qed
  have B: "fst (snd (setZone ?f zoneName w)) = ?f"
    if s: "fst (newRoute53Zone zoneName a w) = Returns (Inl err)"
  proof -
    from s have "fst (setZone ?f zoneName w) = Returns (Some err)"
      by (auto simp: newRoute53Zone_setZone split: outcome.splits option.splits)
    then show ?thesis by (rule setZone_error_unchanged)
  qed
  from A B show ?thesis by blast
qed

theorem newRoute53Zone_fields_from_provider_witness:
  "fst (newRoute53Zone ''example.com.''
          (resolverAPI (zoneListing ''example.com.'')
             (zoneDetail ''/hostedzone/Z1'' [Some ''ns-1.awsdns-01.org.'', Some ''ns-2.awsdns-02.net.'']))
          (world0 []))
     = Returns (Inr \<lparr>api = resolverAPI (zoneListing ''example.com.'')
             (zoneDetail ''/hostedzone/Z1'' [Some ''ns-1.awsdns-01.org.'', Some ''ns-2.awsdns-02.net.'']),
                     Name = ''example.com.'', ID = ''/hostedzone/Z1'',
                     Nameservers = [''ns-1.awsdns-01.org.'', ''ns-2.awsdns-02.net.'']\<rparr>)
   \<and> fst (newRoute53Zone ''example.com.''
          (resolverAPI (zoneListing ''example.com.'') (Inl ''AccessDenied'')) (world0 []))
     = Returns (Inl (ProviderError ''AccessDenied''))
   \<and> fst (snd (setZone
          \<lparr>api = resolverAPI (zoneListing ''example.com.'') (Inl ''AccessDenied''),
           Name = [], ID = [], Nameservers = []\<rparr> ''example.com.'' (world0 [])))
     = \<lparr>api = resolverAPI (zoneListing ''example.com.'') (Inl ''AccessDenied''),
           Name = [], ID = [], Nameservers = []\<rparr>"
proof -
  let ?a = "resolverAPI (zoneListing ''example.com.'')
             (zoneDetail ''/hostedzone/Z1'' [Some ''ns-1.awsdns-01.org.'', Some ''ns-2.awsdns-02.net.''])"
  let ?b = "resolverAPI (zoneListing ''example.com.'') (Inl ''AccessDenied'')"
  have a: "fst (newRoute53Zone ''example.com.'' ?a (world0 []))
     = Returns (Inr \<lparr>api = ?a, Name = ''example.com.'', ID = ''/hostedzone/Z1'',
                     Nameservers = [''ns-1.awsdns-01.org.'', ''ns-2.awsdns-02.net.'']\<rparr>)"
    by (simp add: resolve_defs numeral_2_eq_2)
  have b: "fst (newRoute53Zone ''example.com.'' ?b (world0 []))
     = Returns (Inl (ProviderError ''AccessDenied''))"
    by (simp add: resolve_defs)
  show ?thesis
    using a b
      newRoute53Zone_fields_from_provider [of "''example.com.''" ?a "world0 []"
        "\<lparr>api = ?a, Name = ''example.com.'', ID = ''/hostedzone/Z1'',
                     Nameservers = [''ns-1.awsdns-01.org.'', ''ns-2.awsdns-02.net.'']\<rparr>"
        "ProviderError ''AccessDenied''"]
      newRoute53Zone_fields_from_provider [of "''example.com.''" ?b "world0 []"
        "\<lparr>api = ?a, Name = ''example.com.'', ID = ''/hostedzone/Z1'',
                     Nameservers = [''ns-1.awsdns-01.org.'', ''ns-2.awsdns-02.net.'']\<rparr>"
        "ProviderError ''AccessDenied''"]
    by blast
qed

section \<open>Resolution does not leave a half-initialised handle\<close>

text \<open>
  C10. Whenever \<open>setZone\<close> returns an error the handle is unchanged, and
  \<open>newRoute53Zone\<close> returns nil with that error, the fresh handle still holding its zero
  values. The failing paths are: \<open>ListHostedZonesByName\<close> answers with an error; it
  returns no zone, or a first candidate of another name; \<open>GetHostedZone\<close> answers with an
  error. A nil pointer in an answer makes \<open>setZone\<close> panic, which is not a return.
\<close>

theorem setZone_atomic:
  "(fst (setZone z name w) = Returns (Some err) \<longrightarrow> fst (snd (setZone z name w)) = z)
   \<and> (fst (newRoute53Zone name a w) = Returns (Inl err) \<longleftrightarrow>
        fst (setZone \<lparr>api = a, Name = [], ID = [], Nameservers = []\<rparr> name w)
          = Returns (Some err))
   \<and> (fst (newRoute53Zone name a w) = Returns (Inl err) \<longrightarrow>
        fst (snd (setZone \<lparr>api = a, Name = [], ID = [], Nameservers = []\<rparr> name w))
          = \<lparr>api = a, Name = [], ID = [], Nameservers = []\<rparr>)
   \<and> (fst (ListHostedZonesByName (api z)
          \<lparr>ListHostedZonesByNameInput_DNSName = Some name,
           ListHostedZonesByNameInput_MaxItems = Some ''1''\<rparr> (provider w)) = Inl e
        \<longrightarrow> fst (setZone z name w) = Returns (Some (ProviderError e))
            \<and> fst (snd (setZone z name w)) = z)
   \<and> (ListHostedZonesByName (api z)
          \<lparr>ListHostedZonesByNameInput_DNSName = Some name,
           ListHostedZonesByNameInput_MaxItems = Some ''1''\<rparr> (provider w) = (Inr zones, p1)
        \<and> (ListHostedZonesByNameOutput_HostedZones zones = []
            \<or> ListHostedZonesByNameOutput_HostedZones zones = Some hz0 # rest
               \<and> HostedZone_Name hz0 = Some n \<and> n \<noteq> name)
        \<longrightarrow> fst (setZone z name w) = Returns (Some errRoute53NoHostedZoneFound)
            \<and> fst (snd (setZone z name w)) = z)
   \<and> (ListHostedZonesByName (api z)
          \<lparr>ListHostedZonesByNameInput_DNSName = Some name,
           ListHostedZonesByNameInput_MaxItems = Some ''1''\<rparr> (provider w) = (Inr zones, p1)
        \<and> ListHostedZonesByNameOutput_HostedZones zones = Some hz0 # rest
        \<and> HostedZone_Name hz0 = Some name
        \<and> fst (GetHostedZone (api z) \<lparr>GetHostedZoneInput_Id = HostedZone_Id hz0\<rparr> p1) = Inl e
        \<longrightarrow> fst (setZone z name w) = Returns (Some (ProviderError e))
            \<and> fst (snd (setZone z name w)) = z)"
proof -
  let ?f = "\<lparr>api = a, Name = [], ID = [], Nameservers = []\<rparr>"
  have U: "fst (setZone z name w) = Returns (Some x) \<Longrightarrow> fst (snd (setZone z name w)) = z"
    for x and z :: "'a route53Zone"
    by (rule setZone_error_unchanged)
  have N: "fst (newRoute53Zone name a w) = Returns (Inl err) \<longleftrightarrow>
        fst (setZone ?f name w) = Returns (Some err)"
    by (simp add: newRoute53Zone_setZone split: outcome.splits option.splits)
  have P1: "fst (setZone z name w) = Returns (Some (ProviderError e))"
    if "fst (ListHostedZonesByName (api z)
          \<lparr>ListHostedZonesByNameInput_DNSName = Some name,
           ListHostedZonesByNameInput_MaxItems = Some ''1''\<rparr> (provider w)) = Inl e"
    using that by (rule setZone_list_error)
  have P2: "fst (setZone z name w) = Returns (Some errRoute53NoHostedZoneFound)"
    if "ListHostedZonesByName (api z)
          \<lparr>ListHostedZonesByNameInput_DNSName = Some name,
           ListHostedZonesByNameInput_MaxItems = Some ''1''\<rparr> (provider w) = (Inr zones, p1)"
     and "ListHostedZonesByNameOutput_HostedZones zones = []
            \<or> ListHostedZonesByNameOutput_HostedZones zones = Some hz0 # rest
               \<and> HostedZone_Name hz0 = Some n \<and> n \<noteq> name"
    using that setZone_found_if [of z name w zones p1] by blast
  have P3: "fst (setZone z name w) = Returns (Some (ProviderError e))"
    if "ListHostedZonesByName (api z)
          \<lparr>ListHostedZonesByNameInput_DNSName = Some name,
           ListHostedZonesByNameInput_MaxItems = Some ''1''\<rparr> (provider w) = (Inr zones, p1)"
      "ListHostedZonesByNameOutput_HostedZones zones = Some hz0 # rest"
      "HostedZone_Name hz0 = Some name"
      "fst (GetHostedZone (api z) \<lparr>GetHostedZoneInput_Id = HostedZone_Id hz0\<rparr> p1) = Inl e"
    using that by (rule setZone_detail_error)
  show ?thesis
    using U [of z] U [of ?f] N P1 P2 P3 by blast
qed

theorem setZone_atomic_witness:
  "fst (setZone stubZone ''example.com.'' (world0 [])) = Returns (Some (ProviderError ''unused''))
   \<and> fst (snd (setZone stubZone ''example.com.'' (world0 []))) = stubZone
   \<and> fst (newRoute53Zone ''example.com.''
          (resolverAPI (Inl ''AccessDenied'') (Inl ''unused'')) (world0 []))
     = Returns (Inl (ProviderError ''AccessDenied''))
   \<and> fst (snd (setZone
          \<lparr>api = resolverAPI (Inl ''AccessDenied'') (Inl ''unused''),
           Name = [], ID = [], Nameservers = []\<rparr> ''example.com.'' (world0 [])))
     = \<lparr>api = resolverAPI (Inl ''AccessDenied'') (Inl ''unused''),
           Name = [], ID = [], Nameservers = []\<rparr>
   \<and> fst (newRoute53Zone ''example.com.''
          (resolverAPI (zoneListing ''example.com.au.'') (Inl ''unused'')) (world0 []))
     = Returns (Inl errRoute53NoHostedZoneFound)
   \<and> fst (snd (setZone
          \<lparr>api = resolverAPI (zoneListing ''example.com.au.'') (Inl ''unused''),
           Name = [], ID = [], Nameservers = []\<rparr> ''example.com.'' (world0 [])))
     = \<lparr>api = resolverAPI (zoneListing ''example.com.au.'') (Inl ''unused''),
           Name = [], ID = [], Nameservers = []\<rparr>
   \<and> fst (newRoute53Zone ''example.com.''
          (resolverAPI (zoneListing ''example.com.'') (Inl ''Throttling'')) (world0 []))
     = Returns (Inl (ProviderError ''Throttling''))
   \<and> fst (snd (setZone
          \<lparr>api = resolverAPI (zoneListing ''example.com.'') (Inl ''Throttling''),
           Name = [], ID = [], Nameservers = []\<rparr> ''example.com.'' (world0 [])))
     = \<lparr>api = resolverAPI (zoneListing ''example.com.'') (Inl ''Throttling''),
           Name = [], ID = [], Nameservers = []\<rparr>"
proof -
  let ?i = "\<lparr>ListHostedZonesByNameInput_DNSName = Some ''example.com.'',
           ListHostedZonesByNameInput_MaxItems = Some ''1''\<rparr>"
  let ?a1 = "resolverAPI (Inl ''AccessDenied'') (Inl ''unused'')"
  let ?a2 = "resolverAPI (zoneListing ''example.com.au.'') (Inl ''unused'')"
  let ?a3 = "resolverAPI (zoneListing ''example.com.'') (Inl ''Throttling'')"
  let ?f1 = "\<lparr>api = ?a1, Name = [], ID = [], Nameservers = []\<rparr>"
  let ?f2 = "\<lparr>api = ?a2, Name = [], ID = [], Nameservers = []\<rparr>"
  let ?f3 = "\<lparr>api = ?a3, Name = [], ID = [], Nameservers = []\<rparr>"
  let ?hz2 = "\<lparr>HostedZone_Id = Some ''/hostedzone/Z1'', HostedZone_Name = Some ''example.com.au.''\<rparr>"
  let ?hz3 = "\<lparr>HostedZone_Id = Some ''/hostedzone/Z1'', HostedZone_Name = Some ''example.com.''\<rparr>"
  let ?z2 = "\<lparr>ListHostedZonesByNameOutput_HostedZones = [Some ?hz2]\<rparr>"
  let ?z3 = "\<lparr>ListHostedZonesByNameOutput_HostedZones = [Some ?hz3]\<rparr>"
  have l0: "fst (ListHostedZonesByName (api stubZone) ?i (provider (world0 []))) = Inl ''unused''"
    by (simp add: run_defs)
  have l1: "fst (ListHostedZonesByName (api ?f1) ?i (provider (world0 []))) = Inl ''AccessDenied''"
    by (simp add: resolve_defs)
  have l2: "ListHostedZonesByName (api ?f2) ?i (provider (world0 [])) = (Inr ?z2, [])"
    "ListHostedZonesByNameOutput_HostedZones ?z2 = Some ?hz2 # []"
    "HostedZone_Name ?hz2 = Some ''example.com.au.''" "''example.com.au.'' \<noteq> ''example.com.''"
    by (simp_all add: resolve_defs)
  have l3: "ListHostedZonesByName (api ?f3) ?i (provider (world0 [])) = (Inr ?z3, [])"
    "ListHostedZonesByNameOutput_HostedZones ?z3 = Some ?hz3 # []"
    "HostedZone_Name ?hz3 = Some ''example.com.''"
    "fst (GetHostedZone (api ?f3) \<lparr>GetHostedZoneInput_Id = HostedZone_Id ?hz3\<rparr> []) = Inl ''Throttling''"
    by (simp_all add: resolve_defs)
  note t0 = setZone_atomic [of stubZone "''example.com.''" "world0 []"
         "ProviderError ''unused''" ?a1 "''unused''" ?z2 "[]" ?hz2 "[]" "''example.com.au.''"]
  note t1 = setZone_atomic [of ?f1 "''example.com.''" "world0 []"
         "ProviderError ''AccessDenied''" ?a1 "''AccessDenied''" ?z2 "[]" ?hz2 "[]" "''example.com.au.''"]
  note t2 = setZone_atomic [of ?f2 "''example.com.''" "world0 []"
         "errRoute53NoHostedZoneFound" ?a2 "''unused''" ?z2 "[]" ?hz2 "[]" "''example.com.au.''"]
  note t3 = setZone_atomic [of ?f3 "''example.com.''" "world0 []"
         "ProviderError ''Throttling''" ?a3 "''Throttling''" ?z3 "[]" ?hz3 "[]" "''example.com.''"]
  have r0: "fst (setZone stubZone ''example.com.'' (world0 [])) = Returns (Some (ProviderError ''unused''))
      \<and> fst (snd (setZone stubZone ''example.com.'' (world0 []))) = stubZone"
    using t0 l0 by blast
  have r1: "fst (newRoute53Zone ''example.com.'' ?a1 (world0 [])) = Returns (Inl (ProviderError ''AccessDenied''))
      \<and> fst (snd (setZone ?f1 ''example.com.'' (world0 []))) = ?f1"
    using t1 l1 by blast
  have r2: "fst (newRoute53Zone ''example.com.'' ?a2 (world0 [])) = Returns (Inl errRoute53NoHostedZoneFound)
      \<and> fst (snd (setZone ?f2 ''example.com.'' (world0 []))) = ?f2"
    using t2 l2 by blast
  have r3: "fst (newRoute53Zone ''example.com.'' ?a3 (world0 [])) = Returns (Inl (ProviderError ''Throttling''))
      \<and> fst (snd (setZone ?f3 ''example.com.'' (world0 []))) = ?f3"
    using t3 l3 by blast
  from r0 r1 r2 r3 show ?thesis by blast
qed

end
